theory Spec2Isabelle
  imports Complex_Main "HOL-Library.AList"
begin

section \<open>JavaScript values\<close>

text \<open>
  The server is TypeScript running on a JavaScript engine, and most of what the claims
  are about is decided by JavaScript's own coercions: truthiness (\<open>!x\<close>, \<open>a || b\<close>),
  \<open>Array.isArray\<close>, \<open>Array.prototype.includes\<close>, \<open>Math.min\<close>/\<open>Math.max\<close> with their
  conversion of the argument to a number, and reading a property of \<open>null\<close> or
  \<open>undefined\<close>, which throws. The values below are the ones \<open>JSON.parse\<close> and the body
  parser can produce, plus \<open>undefined\<close> and the number \<open>NaN\<close>.

  A number is a finite rational, an infinity or \<open>NaN\<close>. Every IEEE double is one of these.
  The program compares numbers and takes minima and maxima, which are exact on doubles;
  the one place where a double is made from a mathematical value, the value of a numeric
  string, rounds as the engine rounds, by a function that is a parameter. A string is a
  list of 8-bit characters, read as the code units below 256.
\<close>

datatype jsnum = NaN | NegInf | Fin rat | PosInf

datatype jsval =
    JUndefined
  | JNull
  | JBool bool
  | JNum jsnum
  | JStr string
  | JArr "jsval list"
  | JObj "(string \<times> jsval) list"

text \<open>A thrown \<open>Error\<close> is modelled by its \<open>message\<close>.\<close>

type_synonym error = string

text \<open>\<open>ToBoolean\<close>: what \<open>!x\<close>, \<open>x || y\<close>, \<open>x && y\<close> and \<open>x ? a : b\<close> test.\<close>

fun truthy :: "jsval \<Rightarrow> bool" where
  "truthy JUndefined = False"
| "truthy JNull = False"
| "truthy (JBool b) = b"
| "truthy (JNum n) = (n \<noteq> NaN \<and> n \<noteq> Fin 0)"
| "truthy (JStr s) = (s \<noteq> [])"
| "truthy (JArr xs) = True"
| "truthy (JObj fs) = True"

definition js_or :: "jsval \<Rightarrow> jsval \<Rightarrow> jsval" where
  "js_or a b = (if truthy a then a else b)"

text \<open>
  Reading a property, \<open>v.k\<close>. On \<open>undefined\<close> and \<open>null\<close> the engine throws a \<open>TypeError\<close>
  (the message is V8's). On an object it is the own property or \<open>undefined\<close>; on any
  other value it is \<open>undefined\<close>. The program reads only the names \<open>question\<close>,
  \<open>documentType\<close>, \<open>title\<close>, \<open>propertyId\<close>, \<open>data\<close>, \<open>leaseText\<close>, \<open>documentId\<close>, \<open>analysis\<close>,
  \<open>answer\<close>, \<open>rtloSection\<close>, \<open>confidence\<close>, \<open>complianceScore\<close>, \<open>issues\<close>, \<open>recommendations\<close>,
  \<open>success\<close>, \<open>errors\<close>, \<open>result\<close> and \<open>response\<close>, none of which is an index, \<open>length\<close> or
  a member of a built-in prototype.
\<close>

fun get_prop :: "jsval \<Rightarrow> string \<Rightarrow> error + jsval" where
  "get_prop JUndefined k =
     Inl (''Cannot read properties of undefined (reading '' @ [CHR 0x27] @ k @ [CHR 0x27] @ '')'')"
| "get_prop JNull k =
     Inl (''Cannot read properties of null (reading '' @ [CHR 0x27] @ k @ [CHR 0x27] @ '')'')"
| "get_prop (JObj fs) k = Inr (case map_of fs k of None \<Rightarrow> JUndefined | Some v \<Rightarrow> v)"
| "get_prop v k = Inr JUndefined"

text \<open>
  Destructuring, \<open>const { k, ... } = v\<close>: the same read, with V8's message for a
  \<open>null\<close> or \<open>undefined\<close> source, which names the first property and the source text.
\<close>

definition destructure :: "string \<Rightarrow> jsval \<Rightarrow> string \<Rightarrow> error + jsval" where
  "destructure src v k =
     (if v = JUndefined \<or> v = JNull then
        Inl (''Cannot destructure property '' @ [CHR 0x27] @ k @ [CHR 0x27] @ '' of ''
             @ [CHR 0x27] @ src @ [CHR 0x27] @ '' as it is ''
             @ (if v = JNull then ''null'' else ''undefined'') @ ''.'')
      else get_prop v k)"

text \<open>Decimal digits of a natural number, for template literals and array indices.\<close>

function show_nat :: "nat \<Rightarrow> string" where
  "show_nat n =
     (if n < 10 then [char_of (48 + n)]
      else show_nat (n div 10) @ [char_of (48 + n mod 10)])"
  by pat_completeness auto
termination
  by (relation "measure id") auto

text \<open>
  The own enumerable properties an object spread \<open>{...v}\<close> copies: the fields of an
  object, the indexed elements of an array, the indexed characters of a string, nothing
  for the other values.
\<close>

fun own_props :: "jsval \<Rightarrow> (string \<times> jsval) list" where
  "own_props (JObj fs) = fs"
| "own_props (JArr xs) = zip (map show_nat [0..<length xs]) xs"
| "own_props (JStr s) = zip (map show_nat [0..<length s]) (map (\<lambda>c. JStr [c]) s)"
| "own_props v = []"

text \<open>\<open>{...v, k: x}\<close>: the spread, then the named property written over it.\<close>

definition spread_with :: "jsval \<Rightarrow> string \<Rightarrow> jsval \<Rightarrow> jsval" where
  "spread_with v k x = JObj (AList.update k x (own_props v))"

text \<open>\<open>['high', 'medium', 'low'].includes(v)\<close> on an array of string literals.\<close>

fun includes_str :: "string list \<Rightarrow> jsval \<Rightarrow> bool" where
  "includes_str xs (JStr s) = (s \<in> set xs)"
| "includes_str xs v = False"

fun isArray :: "jsval \<Rightarrow> bool" where
  "isArray (JArr xs) = True"
| "isArray v = False"

subsection \<open>Numbers: \<open>StringToNumber\<close>, \<open>ToNumber\<close>, \<open>Math.min\<close>, \<open>Math.max\<close>\<close>

text \<open>
  \<open>StringToNumber\<close> follows the grammar \<open>StringNumericLiteral\<close> of ECMA-262: optional white
  space around either nothing (the value 0), a binary, octal or hexadecimal integer, or an
  optionally signed decimal literal with optional fraction and exponent, or \<open>Infinity\<close>.
  Anything else is \<open>NaN\<close>. The literal denotes a mathematical value, an exact rational; the
  Number it becomes is that value rounded to the nearest double (and to an infinity beyond
  the range of doubles), which is the work of the engine: \<open>nearest\<close> below stands for it, so
  that \<open>99.99999999999999999\<close> is whatever the engine makes of it (100) and not the rational.
\<close>

definition isStrWhiteSpaceChar :: "char \<Rightarrow> bool" where
  "isStrWhiteSpaceChar c = (of_char c \<in> {9, 10, 11, 12, 13, 32, 160 :: nat})"

definition trim :: "string \<Rightarrow> string" where
  "trim s = rev (dropWhile isStrWhiteSpaceChar (rev (dropWhile isStrWhiteSpaceChar s)))"

definition digit_value :: "char \<Rightarrow> nat option" where
  "digit_value c =
     (let n = (of_char c :: nat) in
      if 48 \<le> n \<and> n \<le> 57 then Some (n - 48)
      else if 97 \<le> n \<and> n \<le> 102 then Some (n - 87)
      else if 65 \<le> n \<and> n \<le> 70 then Some (n - 55)
      else None)"

definition is_digit :: "nat \<Rightarrow> char \<Rightarrow> bool" where
  "is_digit base c = (case digit_value c of None \<Rightarrow> False | Some d \<Rightarrow> d < base)"

definition digits_value :: "nat \<Rightarrow> string \<Rightarrow> nat" where
  "digits_value base ds = foldl (\<lambda>a c. base * a + (case digit_value c of None \<Rightarrow> 0 | Some d \<Rightarrow> d)) 0 ds"

definition all_digits :: "nat \<Rightarrow> string \<Rightarrow> bool" where
  "all_digits base ds = (ds \<noteq> [] \<and> list_all (is_digit base) ds)"

definition radix_literal :: "(rat \<Rightarrow> jsnum) \<Rightarrow> string \<Rightarrow> jsnum option" where
  "radix_literal nearest s =
     (case s of
        c0 # c # ds \<Rightarrow>
          (let base = (if c = CHR ''x'' \<or> c = CHR ''X'' then 16
                       else if c = CHR ''o'' \<or> c = CHR ''O'' then 8
                       else if c = CHR ''b'' \<or> c = CHR ''B'' then 2 else (0::nat))
           in if c0 = CHR ''0'' \<and> base \<noteq> 0 \<and> all_digits base ds
              then Some (nearest (of_nat (digits_value base ds))) else None)
      | _ \<Rightarrow> None)"

definition signed_integer :: "string \<Rightarrow> int option" where
  "signed_integer s =
     (case s of
        c # ds \<Rightarrow>
          if c = CHR ''+'' then (if all_digits 10 ds then Some (int (digits_value 10 ds)) else None)
          else if c = CHR ''-'' then (if all_digits 10 ds then Some (- int (digits_value 10 ds)) else None)
          else (if all_digits 10 s then Some (int (digits_value 10 s)) else None)
      | [] \<Rightarrow> None)"

definition exponent_part :: "string \<Rightarrow> int option" where
  "exponent_part s =
     (case s of
        [] \<Rightarrow> Some 0
      | c # cs \<Rightarrow> if c = CHR ''e'' \<or> c = CHR ''E'' then signed_integer cs else None)"

definition scale10 :: "rat \<Rightarrow> int \<Rightarrow> rat" where
  "scale10 q e = (if 0 \<le> e then q * 10 ^ nat e else q / 10 ^ nat (- e))"

definition unsigned_decimal :: "(rat \<Rightarrow> jsnum) \<Rightarrow> string \<Rightarrow> jsnum option" where
  "unsigned_decimal nearest s =
     (if s = ''Infinity'' then Some PosInf
      else
        let ip = takeWhile (is_digit 10) s; r = dropWhile (is_digit 10) s in
        (case r of
           c # r' \<Rightarrow>
             if c = CHR ''.'' then
               (let fp = takeWhile (is_digit 10) r'; ex = dropWhile (is_digit 10) r' in
                if ip = [] \<and> fp = [] then None
                else (case exponent_part ex of
                        None \<Rightarrow> None
                      | Some e \<Rightarrow>
                          Some (nearest (scale10 (of_nat (digits_value 10 ip)
                                                + of_nat (digits_value 10 fp) / 10 ^ length fp) e))))
             else if ip = [] then None
             else (case exponent_part r of
                     None \<Rightarrow> None
                   | Some e \<Rightarrow> Some (nearest (scale10 (of_nat (digits_value 10 ip)) e)))
         | [] \<Rightarrow> if ip = [] then None else Some (nearest (of_nat (digits_value 10 ip)))))"

fun negate :: "jsnum \<Rightarrow> jsnum" where
  "negate NaN = NaN"
| "negate NegInf = PosInf"
| "negate (Fin q) = Fin (- q)"
| "negate PosInf = NegInf"

definition StringToNumber :: "(rat \<Rightarrow> jsnum) \<Rightarrow> string \<Rightarrow> jsnum" where
  "StringToNumber nearest s =
     (let t = trim s in
      if t = [] then Fin 0
      else case radix_literal nearest t of
             Some n \<Rightarrow> n
           | None \<Rightarrow>
               (case (if hd t = CHR ''+'' then unsigned_decimal nearest (tl t)
                      else if hd t = CHR ''-'' then map_option negate (unsigned_decimal nearest (tl t))
                      else unsigned_decimal nearest t) of
                  None \<Rightarrow> NaN
                | Some n \<Rightarrow> n))"

text \<open>
  What the engine supplies and the program calls without defining: \<open>JSON.parse\<close> (which
  first converts its argument to a string, and throws a \<open>SyntaxError\<close> on malformed text),
  \<open>JSON.stringify\<close>, the decimal text of a number, the conversion of an array or an
  object to a primitive, which is its \<open>toString()\<close> and throws a \<open>TypeError\<close> when the value
  carries an own \<open>toString\<close> and \<open>valueOf\<close> that are not functions, and the rounding of a
  mathematical value to the Number nearest to it.
\<close>

record runtime =
  JSON_parse :: "jsval \<Rightarrow> error + jsval"
  JSON_stringify :: "jsval \<Rightarrow> jsval"
  Number_toString :: "jsnum \<Rightarrow> string"
  Object_toString :: "jsval \<Rightarrow> error + string"
  Number_nearest :: "rat \<Rightarrow> jsnum"

text \<open>\<open>ToString\<close>, as a template literal \<open>`${v}`\<close> applies it.\<close>

fun ToString :: "runtime \<Rightarrow> jsval \<Rightarrow> error + string" where
  "ToString rt JUndefined = Inr ''undefined''"
| "ToString rt JNull = Inr ''null''"
| "ToString rt (JBool b) = Inr (if b then ''true'' else ''false'')"
| "ToString rt (JNum n) = Inr (Number_toString rt n)"
| "ToString rt (JStr s) = Inr s"
| "ToString rt v = Object_toString rt v"

text \<open>\<open>ToNumber\<close>, as \<open>Math.min\<close> and \<open>Math.max\<close> apply it to each argument.\<close>

fun ToNumber :: "runtime \<Rightarrow> jsval \<Rightarrow> error + jsnum" where
  "ToNumber rt JUndefined = Inr NaN"
| "ToNumber rt JNull = Inr (Fin 0)"
| "ToNumber rt (JBool b) = Inr (Fin (if b then 1 else 0))"
| "ToNumber rt (JNum n) = Inr n"
| "ToNumber rt (JStr s) = Inr (StringToNumber (Number_nearest rt) s)"
| "ToNumber rt v =
     (case Object_toString rt v of
        Inl e \<Rightarrow> Inl e
      | Inr s \<Rightarrow> Inr (StringToNumber (Number_nearest rt) s))"

text \<open>Both functions return \<open>NaN\<close> as soon as one argument is \<open>NaN\<close>.\<close>

fun num_le :: "jsnum \<Rightarrow> jsnum \<Rightarrow> bool" where
  "num_le NaN y = False"
| "num_le x NaN = False"
| "num_le NegInf y = True"
| "num_le x PosInf = True"
| "num_le (Fin a) (Fin b) = (a \<le> b)"
| "num_le x y = False"

definition Math_min :: "jsnum \<Rightarrow> jsnum \<Rightarrow> jsnum" where
  "Math_min a b = (if a = NaN \<or> b = NaN then NaN else if num_le a b then a else b)"

definition Math_max :: "jsnum \<Rightarrow> jsnum \<Rightarrow> jsnum" where
  "Math_max a b = (if a = NaN \<or> b = NaN then NaN else if num_le a b then b else a)"

text \<open>Sequencing of steps that may throw: the first error ends the chain.\<close>

definition andThen :: "error + 'a \<Rightarrow> ('a \<Rightarrow> error + 'b) \<Rightarrow> error + 'b" where
  "andThen r f = (case r of Inl e \<Rightarrow> Inl e | Inr v \<Rightarrow> f v)"

text \<open>\<open>catch (error) { throw new Error(prefix + error.message) }\<close>\<close>

definition rethrow :: "string \<Rightarrow> error + 'a \<Rightarrow> error + 'a" where
  "rethrow prefix r = (case r of Inl e \<Rightarrow> Inl (prefix @ e) | Inr v \<Rightarrow> Inr v)"

section \<open>The eligibility rule of POST /api/properties\<close>

text \<open>
  \<open>insertPropertySchema\<close> lives in \<open>@shared/schema\<close>, outside the sources at hand. Its
  parse result is taken as the record below: \<open>units\<close> is an optional integer and
  \<open>isOwnerOccupied\<close> an optional boolean, each of which may be absent (\<open>undefined\<close>) or
  \<open>null\<close>; the remaining columns are kept as one opaque value.
\<close>

datatype 'a optional = Absent | Null | Present 'a

record property_data =
  userId :: string
  units :: "int optional"
  isOwnerOccupied :: "bool optional"
  otherColumns :: jsval

text \<open>\<open>propertyData.isOwnerOccupied\<close> used as a condition.\<close>

fun truthy_bool :: "bool optional \<Rightarrow> bool" where
  "truthy_bool (Present b) = b"
| "truthy_bool Absent = False"
| "truthy_bool Null = False"

text \<open>\<open>propertyData.units || 1\<close>: an absent, \<open>null\<close> or zero value gives 1.\<close>

fun units_or_1 :: "int optional \<Rightarrow> int" where
  "units_or_1 (Present u) = (if u \<noteq> 0 then u else 1)"
| "units_or_1 Absent = 1"
| "units_or_1 Null = 1"

text \<open>
  Lines 26 to 31 of \<open>routes.ts\<close>:
  \<^verbatim>\<open>
  let isRtloCovered = true;
  if (propertyData.isOwnerOccupied && (propertyData.units || 1) <= 6) {
    isRtloCovered = false;
  }
  \<close>
\<close>

definition isRtloCovered_of :: "property_data \<Rightarrow> bool" where
  "isRtloCovered_of propertyData =
     (if truthy_bool (isOwnerOccupied propertyData) \<and> units_or_1 (units propertyData) \<le> 6
      then False else True)"

section \<open>The AI gateway client (\<open>chittygateway.ts\<close>)\<close>

text \<open>
  The environment variables the client reads. A variable that is unset is \<open>None\<close>; an unset
  or empty one is falsy. The same reading of an optional string serves for the session's
  tokens below.
\<close>

record env =
  CLOUDFLARE_ACCOUNT_ID :: "string option"
  CHITTY_API_KEY :: "string option"
  CLOUDFLARE_API_TOKEN :: "string option"
  CHITTY_AI_MODEL :: "string option"

fun env_truthy :: "string option \<Rightarrow> bool" where
  "env_truthy None = False"
| "env_truthy (Some s) = (s \<noteq> [])"

definition env_or :: "string option \<Rightarrow> string option \<Rightarrow> string option" where
  "env_or a b = (if env_truthy a then a else b)"

fun env_text :: "string option \<Rightarrow> string" where
  "env_text None = ''undefined''"
| "env_text (Some s) = s"

definition CHITTYGATEWAY_URL :: "env \<Rightarrow> string" where
  "CHITTYGATEWAY_URL e =
     ''https://gateway.ai.cloudflare.com/v1/'' @ env_text (CLOUDFLARE_ACCOUNT_ID e) @ ''/chittygateway''"

definition getModel :: "env \<Rightarrow> string" where
  "getModel e = env_text (env_or (CHITTY_AI_MODEL e) (Some ''@cf/meta/llama-3.1-70b-instruct''))"

datatype role = System | User | Assistant

record chat_message =
  msg_role :: role
  msg_content :: jsval

text \<open>
  The HTTP exchange with the gateway is the outside world: \<open>fetch\<close> is a parameter that
  answers a request with a rejection or a response, whose status, text and JSON body
  (\<open>response.json()\<close> may itself reject) are given.
\<close>

record fetch_request =
  rq_url :: string
  rq_method :: string
  rq_authorization :: string
  rq_content_type :: string
  rq_messages :: "chat_message list"
  rq_stream :: bool

record fetch_response =
  rs_ok :: bool
  rs_status :: nat
  rs_text :: "error + string"
  rs_json :: "error + jsval"

section \<open>External calls and the world they act on\<close>

text \<open>
  The storage layer (\<open>./storage\<close>) is outside the sources at hand; it is a parameter: each
  operation takes its argument and the stored state and gives a row or an error, and the
  next stored state. Every call that leaves the process (a gateway request, a storage
  operation, a lookup of the OIDC configuration, a refresh-token grant) is appended to a trace, so that
  which calls a request makes, and how many, can be stated.
\<close>

record insert_property = property_data +
  isRtloCovered :: bool
  verificationDate :: int

record insert_question =
  q_userId :: string
  q_question :: jsval
  q_answer :: jsval
  q_rtloSection :: jsval
  q_confidence :: jsval

record insert_document =
  d_userId :: string
  d_propertyId :: jsval
  d_documentType :: jsval
  d_title :: jsval
  d_content :: jsval
  d_metadata :: jsval

record insert_analysis =
  a_userId :: string
  a_documentId :: jsval
  a_analysisType :: string
  a_originalText :: jsval
  a_analysis :: jsval
  a_recommendations :: jsval
  a_complianceScore :: jsnum

datatype storage_call =
    CreateProperty insert_property
  | GetPropertiesByUser string
  | CreateRTLOQuestion insert_question
  | GetRTLOQuestionsByUser string
  | CreateDocument insert_document
  | GetDocumentsByUser string
  | CreateAIAnalysis insert_analysis
  | GetAIAnalysesByUser string

datatype event =
    Fetch fetch_request
  | Storage storage_call
  | GetOidcConfig
  | RefreshTokenGrant string

record 'st world =
  store :: 'st
  trace :: "event list"

record 'st storage =
  createProperty :: "insert_property \<Rightarrow> 'st \<Rightarrow> (error + jsval) \<times> 'st"
  getPropertiesByUser :: "string \<Rightarrow> 'st \<Rightarrow> (error + jsval) \<times> 'st"
  createRTLOQuestion :: "insert_question \<Rightarrow> 'st \<Rightarrow> (error + jsval) \<times> 'st"
  getRTLOQuestionsByUser :: "string \<Rightarrow> 'st \<Rightarrow> (error + jsval) \<times> 'st"
  createDocument :: "insert_document \<Rightarrow> 'st \<Rightarrow> (error + jsval) \<times> 'st"
  getDocumentsByUser :: "string \<Rightarrow> 'st \<Rightarrow> (error + jsval) \<times> 'st"
  createAIAnalysis :: "insert_analysis \<Rightarrow> 'st \<Rightarrow> (error + jsval) \<times> 'st"
  getAIAnalysesByUser :: "string \<Rightarrow> 'st \<Rightarrow> (error + jsval list) \<times> 'st"

definition record_event :: "event \<Rightarrow> 'st world \<Rightarrow> 'st world" where
  "record_event ev w = w\<lparr>trace := trace w @ [ev]\<rparr>"

definition call_storage ::
  "storage_call \<Rightarrow> ('st \<Rightarrow> (error + 'a) \<times> 'st) \<Rightarrow> 'st world \<Rightarrow> (error + 'a) \<times> 'st world" where
  "call_storage c operation w =
     (case operation (store w) of
        (r, st) \<Rightarrow> (r, \<lparr>store = st, trace = trace w @ [Storage c]\<rparr>))"

definition call_fetch ::
  "(fetch_request \<Rightarrow> error + fetch_response) \<Rightarrow> fetch_request \<Rightarrow> 'st world
     \<Rightarrow> (error + fetch_response) \<times> 'st world" where
  "call_fetch fetch rq w = (fetch rq, record_event (Fetch rq) w)"

subsection \<open>\<open>chatCompletion\<close>\<close>

text \<open>The part of \<open>chatCompletion\<close> after the response has arrived (lines 46 to 57).\<close>

definition completion_of :: "runtime \<Rightarrow> fetch_response \<Rightarrow> error + jsval" where
  "completion_of rt response =
     (if \<not> rs_ok response then
        andThen (rs_text response) (\<lambda>error.
          Inl (''ChittyGateway request failed: '' @ show_nat (rs_status response) @ '' - '' @ error))
      else
        andThen (rs_json response) (\<lambda>data.
        andThen (get_prop data ''success'') (\<lambda>success.
          if \<not> truthy success then
            andThen (get_prop data ''errors'') (\<lambda>errors.
            andThen (ToString rt (JSON_stringify rt errors)) (\<lambda>text.
              Inl (''ChittyGateway error: '' @ text)))
          else
            andThen (get_prop data ''result'') (\<lambda>result.
              get_prop result ''response''))))"

definition chatCompletion ::
  "runtime \<Rightarrow> env \<Rightarrow> (fetch_request \<Rightarrow> error + fetch_response) \<Rightarrow> chat_message list \<Rightarrow> bool
     \<Rightarrow> 'st world \<Rightarrow> (error + jsval) \<times> 'st world" where
  "chatCompletion rt e fetch messages jsonMode w =
     (let model = getModel e;
          apiKey = env_or (CHITTY_API_KEY e) (CLOUDFLARE_API_TOKEN e)
      in if \<not> env_truthy apiKey then
           (Inl ''CHITTY_API_KEY or CLOUDFLARE_API_TOKEN is required'', w)
         else
           let url = CHITTYGATEWAY_URL e @ ''/workers-ai/'' @ model in
           (case call_fetch fetch
                   \<lparr>rq_url = url, rq_method = ''POST'',
                    rq_authorization = ''Bearer '' @ env_text apiKey,
                    rq_content_type = ''application/json'',
                    rq_messages = messages, rq_stream = False\<rparr> w of
              (Inl err, w1) \<Rightarrow> (Inl err, w1)
            | (Inr response, w1) \<Rightarrow> (completion_of rt response, w1)))"

text \<open>
  The system prompts are long literals that no branch depends on; each is kept by its
  first sentence.
\<close>

definition RTLO_QUESTION_PROMPT :: string where
  "RTLO_QUESTION_PROMPT =
     ''You are an expert on Chicago's Residential Landlord and Tenant Ordinance (RTLO), Chapter 5-12 of the Chicago Municipal Code.''"

definition LEASE_REVIEW_PROMPT :: string where
  "LEASE_REVIEW_PROMPT =
     ''You are an expert lease reviewer specializing in Chicago RTLO compliance.''"

definition DOCUMENT_PROMPT :: string where
  "DOCUMENT_PROMPT =
     ''You are a legal document generator specializing in Chicago RTLO-compliant documents.''"

subsection \<open>\<open>analyzeRTLOQuestion\<close>\<close>

record rtlo_answer =
  answer :: jsval
  rtloSection :: jsval
  confidence :: jsval

text \<open>The object built from the parsed response (lines 98 to 102).\<close>

definition rtlo_answer_of :: "jsval \<Rightarrow> error + rtlo_answer" where
  "rtlo_answer_of result =
     andThen (get_prop result ''answer'') (\<lambda>a.
     andThen (get_prop result ''rtloSection'') (\<lambda>s.
     andThen (get_prop result ''confidence'') (\<lambda>c.
     andThen (if includes_str [''high'', ''medium'', ''low''] c
              then get_prop result ''confidence'' else Inr (JStr ''low'')) (\<lambda>c'.
       Inr \<lparr>answer = js_or a (JStr ''Unable to provide specific guidance. Please consult the full Chicago RTLO text or legal counsel.''),
            rtloSection = js_or s JNull,
            confidence = c'\<rparr>))))"

definition rtlo_messages :: "jsval \<Rightarrow> chat_message list" where
  "rtlo_messages question =
     [\<lparr>msg_role = System, msg_content = JStr RTLO_QUESTION_PROMPT\<rparr>,
      \<lparr>msg_role = User, msg_content = question\<rparr>]"

definition analyzeRTLOQuestion ::
  "runtime \<Rightarrow> env \<Rightarrow> (fetch_request \<Rightarrow> error + fetch_response) \<Rightarrow> jsval
     \<Rightarrow> 'st world \<Rightarrow> (error + rtlo_answer) \<times> 'st world" where
  "analyzeRTLOQuestion rt e fetch question w =
     (case chatCompletion rt e fetch (rtlo_messages question) True w of
        (r, w1) \<Rightarrow>
          (rethrow ''Failed to analyze RTLO question: ''
             (andThen r (\<lambda>response.
              andThen (JSON_parse rt response) (\<lambda>result.
                rtlo_answer_of result))), w1))"

subsection \<open>\<open>analyzeLeaseCompliance\<close>\<close>

record lease_analysis =
  complianceScore :: jsnum
  issues :: jsval
  recommendations :: jsval

text \<open>
  The object built from the parsed response (lines 156 to 160):
  \<^verbatim>\<open>
  complianceScore: Math.max(0, Math.min(100, result.complianceScore || 0)),
  issues: Array.isArray(result.issues) ? result.issues : [],
  recommendations: Array.isArray(result.recommendations) ? result.recommendations : [],
  \<close>
\<close>

definition lease_analysis_of :: "runtime \<Rightarrow> jsval \<Rightarrow> error + lease_analysis" where
  "lease_analysis_of rt result =
     andThen (get_prop result ''complianceScore'') (\<lambda>score.
     andThen (ToNumber rt (js_or score (JNum (Fin 0)))) (\<lambda>n.
     andThen (get_prop result ''issues'') (\<lambda>i.
     andThen (get_prop result ''recommendations'') (\<lambda>r.
       Inr \<lparr>complianceScore = Math_max (Fin 0) (Math_min (Fin 100) n),
            issues = (if isArray i then i else JArr []),
            recommendations = (if isArray r then r else JArr [])\<rparr>))))"

text \<open>The user message interpolates the lease text, \<open>`...:\n\n${leaseText}`\<close>.\<close>

definition lease_messages :: "string \<Rightarrow> chat_message list" where
  "lease_messages text =
     [\<lparr>msg_role = System, msg_content = JStr LEASE_REVIEW_PROMPT\<rparr>,
      \<lparr>msg_role = User,
       msg_content = JStr (''Please analyze this lease for Chicago RTLO compliance:''
                           @ [CHR 0x0A, CHR 0x0A] @ text)\<rparr>]"

definition analyzeLeaseCompliance ::
  "runtime \<Rightarrow> env \<Rightarrow> (fetch_request \<Rightarrow> error + fetch_response) \<Rightarrow> jsval
     \<Rightarrow> 'st world \<Rightarrow> (error + lease_analysis) \<times> 'st world" where
  "analyzeLeaseCompliance rt e fetch leaseText w =
     (case ToString rt leaseText of
        Inl err \<Rightarrow> (Inl (''Failed to analyze lease compliance: '' @ err), w)
      | Inr text \<Rightarrow>
          (case chatCompletion rt e fetch (lease_messages text) True w of
             (r, w1) \<Rightarrow>
               (rethrow ''Failed to analyze lease compliance: ''
                  (andThen r (\<lambda>response.
                   andThen (JSON_parse rt response) (\<lambda>result.
                     lease_analysis_of rt result))), w1)))"

subsection \<open>\<open>generateRTLODocument\<close>\<close>

definition generateRTLODocument ::
  "runtime \<Rightarrow> env \<Rightarrow> (fetch_request \<Rightarrow> error + fetch_response) \<Rightarrow> jsval \<Rightarrow> jsval
     \<Rightarrow> 'st world \<Rightarrow> (error + jsval) \<times> 'st world" where
  "generateRTLODocument rt e fetch type data w =
     (case andThen (ToString rt type) (\<lambda>t.
           andThen (ToString rt (JSON_stringify rt data)) (\<lambda>d.
             Inr (''Generate a '' @ t @ '' document with the following information: '' @ d))) of
        Inl err \<Rightarrow> (Inl (''Failed to generate document: '' @ err), w)
      | Inr text \<Rightarrow>
          (case chatCompletion rt e fetch
                  [\<lparr>msg_role = System, msg_content = JStr DOCUMENT_PROMPT\<rparr>,
                   \<lparr>msg_role = User, msg_content = JStr text\<rparr>] False w of
             (r, w1) \<Rightarrow>
               (rethrow ''Failed to generate document: ''
                  (andThen r (\<lambda>response.
                     Inr (js_or response (JStr ''Unable to generate document.'')))), w1)))"

section \<open>The HTTP route layer (\<open>routes.ts\<close>)\<close>

text \<open>
  A handler answers with a status and a JSON body, which is either \<open>{message}\<close> or a value
  (\<open>res.json(x)\<close> without \<open>res.status\<close> answers 200). \<open>console.error\<close> is not modelled.
  The request is its parsed body, \<open>req.body\<close>.
\<close>

datatype resp_body = Message string | Json jsval

record response =
  status :: nat
  json :: resp_body

subsection \<open>POST /api/properties and GET /api/properties\<close>

text \<open>
  \<open>insertPropertySchema.parse\<close> is a parameter: it throws or gives the property data. The
  object handed to \<open>storage.createProperty\<close> is \<open>{...propertyData, isRtloCovered,
  verificationDate: new Date()}\<close>: the computed flag is written after the spread, so it is
  the flag of the stored object whatever the body carried.
\<close>

definition property_row :: "property_data \<Rightarrow> int \<Rightarrow> insert_property" where
  "property_row propertyData now =
     \<lparr>userId = userId propertyData, units = units propertyData,
      isOwnerOccupied = isOwnerOccupied propertyData,
      otherColumns = otherColumns propertyData,
      isRtloCovered = isRtloCovered_of propertyData, verificationDate = now\<rparr>"

definition post_properties ::
  "(jsval \<Rightarrow> error + property_data) \<Rightarrow> 'st storage \<Rightarrow> int \<Rightarrow> jsval
     \<Rightarrow> 'st world \<Rightarrow> response \<times> 'st world" where
  "post_properties insertPropertySchema_parse storage now body w =
     (case insertPropertySchema_parse (spread_with body ''userId'' (JStr ''anonymous'')) of
        Inl err \<Rightarrow>
          (\<lparr>status = 400, json = Message (''Failed to create property: '' @ err)\<rparr>, w)
      | Inr propertyData \<Rightarrow>
          (let row = property_row propertyData now
           in case call_storage (CreateProperty row) (createProperty storage row) w of
                (Inl err, w1) \<Rightarrow>
                  (\<lparr>status = 400, json = Message (''Failed to create property: '' @ err)\<rparr>, w1)
              | (Inr property, w1) \<Rightarrow> (\<lparr>status = 200, json = Json property\<rparr>, w1)))"

definition get_properties :: "'st storage \<Rightarrow> 'st world \<Rightarrow> response \<times> 'st world" where
  "get_properties storage w =
     (case call_storage (GetPropertiesByUser ''anonymous'')
             (getPropertiesByUser storage ''anonymous'') w of
        (Inl err, w1) \<Rightarrow> (\<lparr>status = 500, json = Message ''Failed to fetch properties''\<rparr>, w1)
      | (Inr properties, w1) \<Rightarrow> (\<lparr>status = 200, json = Json properties\<rparr>, w1))"

subsection \<open>POST /api/rtlo-questions and GET /api/rtlo-questions\<close>

definition question_row :: "jsval \<Rightarrow> rtlo_answer \<Rightarrow> insert_question" where
  "question_row question analysis =
     \<lparr>q_userId = ''anonymous'', q_question = question,
      q_answer = answer analysis, q_rtloSection = rtloSection analysis,
      q_confidence = confidence analysis\<rparr>"

definition post_rtlo_questions ::
  "runtime \<Rightarrow> env \<Rightarrow> (fetch_request \<Rightarrow> error + fetch_response) \<Rightarrow> 'st storage \<Rightarrow> jsval
     \<Rightarrow> 'st world \<Rightarrow> response \<times> 'st world" where
  "post_rtlo_questions rt e fetch storage body w =
     (case destructure ''req.body'' body ''question'' of
        Inl err \<Rightarrow>
          (\<lparr>status = 500, json = Message (''Failed to process question: '' @ err)\<rparr>, w)
      | Inr question \<Rightarrow>
          if \<not> truthy question then
            (\<lparr>status = 400, json = Message ''Question is required''\<rparr>, w)
          else
            (case analyzeRTLOQuestion rt e fetch question w of
               (Inl err, w1) \<Rightarrow>
                 (\<lparr>status = 500, json = Message (''Failed to process question: '' @ err)\<rparr>, w1)
             | (Inr analysis, w1) \<Rightarrow>
                 (let row = question_row question analysis
                  in case call_storage (CreateRTLOQuestion row) (createRTLOQuestion storage row) w1 of
                       (Inl err, w2) \<Rightarrow>
                         (\<lparr>status = 500,
                           json = Message (''Failed to process question: '' @ err)\<rparr>, w2)
                     | (Inr rtloQuestion, w2) \<Rightarrow>
                         (\<lparr>status = 200, json = Json rtloQuestion\<rparr>, w2))))"

definition get_rtlo_questions :: "'st storage \<Rightarrow> 'st world \<Rightarrow> response \<times> 'st world" where
  "get_rtlo_questions storage w =
     (case call_storage (GetRTLOQuestionsByUser ''anonymous'')
             (getRTLOQuestionsByUser storage ''anonymous'') w of
        (Inl err, w1) \<Rightarrow> (\<lparr>status = 500, json = Message ''Failed to fetch questions''\<rparr>, w1)
      | (Inr questions, w1) \<Rightarrow> (\<lparr>status = 200, json = Json questions\<rparr>, w1))"

subsection \<open>POST /api/documents and GET /api/documents\<close>

definition document_row :: "jsval \<Rightarrow> jsval \<Rightarrow> jsval \<Rightarrow> jsval \<Rightarrow> jsval \<Rightarrow> insert_document" where
  "document_row propertyId documentType title content data =
     \<lparr>d_userId = ''anonymous'', d_propertyId = propertyId,
      d_documentType = documentType, d_title = title,
      d_content = content, d_metadata = js_or data (JObj [])\<rparr>"

definition post_documents ::
  "runtime \<Rightarrow> env \<Rightarrow> (fetch_request \<Rightarrow> error + fetch_response) \<Rightarrow> 'st storage \<Rightarrow> jsval
     \<Rightarrow> 'st world \<Rightarrow> response \<times> 'st world" where
  "post_documents rt e fetch storage body w =
     (case andThen (destructure ''req.body'' body ''documentType'') (\<lambda>documentType.
           andThen (destructure ''req.body'' body ''title'') (\<lambda>title.
           andThen (destructure ''req.body'' body ''propertyId'') (\<lambda>propertyId.
           andThen (destructure ''req.body'' body ''data'') (\<lambda>data.
             Inr (documentType, title, propertyId, data))))) of
        Inl err \<Rightarrow>
          (\<lparr>status = 500, json = Message (''Failed to generate document: '' @ err)\<rparr>, w)
      | Inr (documentType, title, propertyId, data) \<Rightarrow>
          if \<not> truthy documentType \<or> \<not> truthy title then
            (\<lparr>status = 400, json = Message ''Document type and title are required''\<rparr>, w)
          else
            (case generateRTLODocument rt e fetch documentType (js_or data (JObj [])) w of
               (Inl err, w1) \<Rightarrow>
                 (\<lparr>status = 500, json = Message (''Failed to generate document: '' @ err)\<rparr>, w1)
             | (Inr content, w1) \<Rightarrow>
                 (let row = document_row propertyId documentType title content data
                  in case call_storage (CreateDocument row) (createDocument storage row) w1 of
                       (Inl err, w2) \<Rightarrow>
                         (\<lparr>status = 500,
                           json = Message (''Failed to generate document: '' @ err)\<rparr>, w2)
                     | (Inr document, w2) \<Rightarrow> (\<lparr>status = 200, json = Json document\<rparr>, w2))))"

definition get_documents :: "'st storage \<Rightarrow> 'st world \<Rightarrow> response \<times> 'st world" where
  "get_documents storage w =
     (case call_storage (GetDocumentsByUser ''anonymous'')
             (getDocumentsByUser storage ''anonymous'') w of
        (Inl err, w1) \<Rightarrow> (\<lparr>status = 500, json = Message ''Failed to fetch documents''\<rparr>, w1)
      | (Inr documents, w1) \<Rightarrow> (\<lparr>status = 200, json = Json documents\<rparr>, w1))"

subsection \<open>POST /api/ai-analysis and GET /api/ai-analyses\<close>

text \<open>The analysis as the JSON object it is when serialised or returned.\<close>

definition lease_analysis_object :: "lease_analysis \<Rightarrow> jsval" where
  "lease_analysis_object a =
     JObj [(''complianceScore'', JNum (complianceScore a)),
           (''issues'', issues a),
           (''recommendations'', recommendations a)]"

definition analysis_row :: "runtime \<Rightarrow> jsval \<Rightarrow> jsval \<Rightarrow> lease_analysis \<Rightarrow> insert_analysis" where
  "analysis_row rt documentId leaseText analysis =
     \<lparr>a_userId = ''anonymous'', a_documentId = documentId,
      a_analysisType = ''lease-review'', a_originalText = leaseText,
      a_analysis = JSON_stringify rt (lease_analysis_object analysis),
      a_recommendations = recommendations analysis,
      a_complianceScore = complianceScore analysis\<rparr>"

definition post_ai_analysis ::
  "runtime \<Rightarrow> env \<Rightarrow> (fetch_request \<Rightarrow> error + fetch_response) \<Rightarrow> 'st storage \<Rightarrow> jsval
     \<Rightarrow> 'st world \<Rightarrow> response \<times> 'st world" where
  "post_ai_analysis rt e fetch storage body w =
     (case andThen (destructure ''req.body'' body ''leaseText'') (\<lambda>leaseText.
           andThen (destructure ''req.body'' body ''documentId'') (\<lambda>documentId.
             Inr (leaseText, documentId))) of
        Inl err \<Rightarrow>
          (\<lparr>status = 500, json = Message (''Failed to perform AI analysis: '' @ err)\<rparr>, w)
      | Inr (leaseText, documentId) \<Rightarrow>
          if \<not> truthy leaseText then
            (\<lparr>status = 400, json = Message ''Lease text is required''\<rparr>, w)
          else
            (case analyzeLeaseCompliance rt e fetch leaseText w of
               (Inl err, w1) \<Rightarrow>
                 (\<lparr>status = 500, json = Message (''Failed to perform AI analysis: '' @ err)\<rparr>, w1)
             | (Inr analysis, w1) \<Rightarrow>
                 (let row = analysis_row rt documentId leaseText analysis
                  in case call_storage (CreateAIAnalysis row) (createAIAnalysis storage row) w1 of
                       (Inl err, w2) \<Rightarrow>
                         (\<lparr>status = 500,
                           json = Message (''Failed to perform AI analysis: '' @ err)\<rparr>, w2)
                     | (Inr aiAnalysis, w2) \<Rightarrow>
                         (\<lparr>status = 200,
                           json = Json (spread_with aiAnalysis ''analysis''
                                          (lease_analysis_object analysis))\<rparr>, w2))))"

text \<open>\<open>xs.map(f)\<close> with an \<open>f\<close> that may throw: the first throw ends the map.\<close>

fun map_throwing :: "('a \<Rightarrow> error + 'b) \<Rightarrow> 'a list \<Rightarrow> error + 'b list" where
  "map_throwing f [] = Inr []"
| "map_throwing f (x # xs) =
     andThen (f x) (\<lambda>y. andThen (map_throwing f xs) (\<lambda>ys. Inr (y # ys)))"

definition parsed_analysis_row :: "runtime \<Rightarrow> jsval \<Rightarrow> error + jsval" where
  "parsed_analysis_row rt analysis =
     andThen (get_prop analysis ''analysis'') (\<lambda>a.
     andThen (if truthy a then andThen (get_prop analysis ''analysis'') (JSON_parse rt)
              else Inr JNull) (\<lambda>parsed.
       Inr (spread_with analysis ''analysis'' parsed)))"

definition get_ai_analyses :: "runtime \<Rightarrow> 'st storage \<Rightarrow> 'st world \<Rightarrow> response \<times> 'st world" where
  "get_ai_analyses rt storage w =
     (case call_storage (GetAIAnalysesByUser ''anonymous'')
             (getAIAnalysesByUser storage ''anonymous'') w of
        (r, w1) \<Rightarrow>
          (case andThen r (map_throwing (parsed_analysis_row rt)) of
             Inl err \<Rightarrow> (\<lparr>status = 500, json = Message ''Failed to fetch analyses''\<rparr>, w1)
           | Inr parsedAnalyses \<Rightarrow> (\<lparr>status = 200, json = Json (JArr parsedAnalyses)\<rparr>, w1)))"

text \<open>
  Whether a response body carries a given error message: it is a \<open>{message}\<close> body whose
  text contains the message as a contiguous part.
\<close>

fun contains :: "string \<Rightarrow> string \<Rightarrow> bool" where
  "contains [] m = (m = [])"
| "contains (c # cs) m = (take (length m) (c # cs) = m \<or> contains cs m)"

fun carries :: "resp_body \<Rightarrow> string \<Rightarrow> bool" where
  "carries (Message text) m = contains text m"
| "carries (Json v) m = False"

section \<open>The auth module (\<open>chittyAuth.ts\<close>)\<close>

subsection \<open>\<open>CHITTYID_PATTERN\<close> and \<open>validateChittyIDFormat\<close>\<close>

text \<open>
  The pattern uses literals, one alternation, one character class and bounded repetition,
  between \<open>^\<close> and \<open>$\<close> (no flags, so \<open>$\<close> is the end of the input). Such a pattern is a
  regular expression in the strict sense, and \<open>RegExp.prototype.test\<close> answers whether
  the whole string belongs to its language; the matcher below decides that by
  derivatives.
\<close>

datatype regex =
    Fail
  | Eps
  | Lit char
  | Class "(char \<times> char) list"
  | Alt regex regex
  | Seq regex regex

fun in_range :: "char \<times> char \<Rightarrow> char \<Rightarrow> bool" where
  "in_range (lo, hi) c = ((of_char lo :: nat) \<le> of_char c \<and> (of_char c :: nat) \<le> of_char hi)"

definition in_class :: "(char \<times> char) list \<Rightarrow> char \<Rightarrow> bool" where
  "in_class ranges c = list_ex (\<lambda>r. in_range r c) ranges"

fun accepts_empty :: "regex \<Rightarrow> bool" where
  "accepts_empty Fail = False"
| "accepts_empty Eps = True"
| "accepts_empty (Lit c) = False"
| "accepts_empty (Class ranges) = False"
| "accepts_empty (Alt r s) = (accepts_empty r \<or> accepts_empty s)"
| "accepts_empty (Seq r s) = (accepts_empty r \<and> accepts_empty s)"

fun deriv :: "char \<Rightarrow> regex \<Rightarrow> regex" where
  "deriv c Fail = Fail"
| "deriv c Eps = Fail"
| "deriv c (Lit d) = (if c = d then Eps else Fail)"
| "deriv c (Class ranges) = (if in_class ranges c then Eps else Fail)"
| "deriv c (Alt r s) = Alt (deriv c r) (deriv c s)"
| "deriv c (Seq r s) =
     (if accepts_empty r then Alt (Seq (deriv c r) s) (deriv c s) else Seq (deriv c r) s)"

fun matches :: "regex \<Rightarrow> string \<Rightarrow> bool" where
  "matches r [] = accepts_empty r"
| "matches r (c # cs) = matches (deriv c r) cs"

fun literal :: "string \<Rightarrow> regex" where
  "literal [] = Eps"
| "literal (c # cs) = Seq (Lit c) (literal cs)"

fun alternatives :: "regex list \<Rightarrow> regex" where
  "alternatives [] = Fail"
| "alternatives (r # rs) = Alt r (alternatives rs)"

fun repeat :: "nat \<Rightarrow> regex \<Rightarrow> regex" where
  "repeat 0 r = Eps"
| "repeat (Suc n) r = Seq r (repeat n r)"

definition ENTITY_TAGS :: "string list" where
  "ENTITY_TAGS = [''PEO'', ''PLACE'', ''PROP'', ''EVNT'', ''AUTH'', ''INFO'', ''FACT'',
                  ''CONTEXT'', ''ACTOR'', ''DOC'', ''SERVICE'']"

text \<open>The class \<open>[A-Z0-9]\<close>.\<close>

definition UPPER_ALNUM :: "(char \<times> char) list" where
  "UPPER_ALNUM = [(CHR ''A'', CHR ''Z''), (CHR ''0'', CHR ''9'')]"

text \<open>
  \<^verbatim>\<open>/^CHITTY-(PEO|PLACE|PROP|EVNT|AUTH|INFO|FACT|CONTEXT|ACTOR|DOC|SERVICE)-[A-Z0-9]{8}-[A-Z0-9]{4}$/\<close>
\<close>

definition CHITTYID_PATTERN :: regex where
  "CHITTYID_PATTERN =
     Seq (literal ''CHITTY-'')
    (Seq (alternatives (map literal ENTITY_TAGS))
    (Seq (Lit CHR ''-'')
    (Seq (repeat 8 (Class UPPER_ALNUM))
    (Seq (Lit CHR ''-'')
         (repeat 4 (Class UPPER_ALNUM))))))"

definition validateChittyIDFormat :: "string \<Rightarrow> bool" where
  "validateChittyIDFormat chittyId = matches CHITTYID_PATTERN chittyId"

text \<open>The language of a pattern, against which the matcher is justified.\<close>

fun lang :: "regex \<Rightarrow> string set" where
  "lang Fail = {}"
| "lang Eps = {[]}"
| "lang (Lit c) = {[c]}"
| "lang (Class ranges) = {[c] |c. in_class ranges c}"
| "lang (Alt r s) = lang r \<union> lang s"
| "lang (Seq r s) = {u @ v |u v. u \<in> lang r \<and> v \<in> lang s}"

text \<open>
  An upper-case letter or a digit, and a lower-case letter, by character code.
\<close>

definition upper_alnum :: "char \<Rightarrow> bool" where
  "upper_alnum c =
     ((65 \<le> (of_char c :: nat) \<and> (of_char c :: nat) \<le> 90)
      \<or> (48 \<le> (of_char c :: nat) \<and> (of_char c :: nat) \<le> 57))"

definition lower_case :: "char \<Rightarrow> bool" where
  "lower_case c = (97 \<le> (of_char c :: nat) \<and> (of_char c :: nat) \<le> 122)"

subsection \<open>The session and \<open>isAuthenticated\<close>\<close>

text \<open>
  The ID-token claims the module reads, the token endpoint's response, and the user
  object kept in the session. An optional string is truthy when present and not empty.
\<close>

record claims =
  c_exp :: "int option"
  c_chitty_id :: "string option"
  c_sub :: "string option"

record tokens =
  t_claims :: "claims option"
  t_access_token :: string
  t_refresh_token :: "string option"

record session_user =
  u_claims :: "claims option"
  access_token :: "string option"
  refresh_token :: "string option"
  expires_at :: "int option"
  chittyId :: "string option"

text \<open>
  \<^verbatim>\<open>
  const claims = tokens.claims();
  user.claims = claims;
  user.access_token = tokens.access_token;
  user.refresh_token = tokens.refresh_token;
  user.expires_at = claims?.exp;
  user.chittyId = claims?.chitty_id || claims?.sub;
  \<close>
\<close>

definition updateUserSession :: "session_user \<Rightarrow> tokens \<Rightarrow> session_user" where
  "updateUserSession user tk =
     (let cl = t_claims tk in
      user\<lparr>u_claims := cl,
           access_token := Some (t_access_token tk),
           refresh_token := t_refresh_token tk,
           expires_at := (case cl of None \<Rightarrow> None | Some c \<Rightarrow> c_exp c),
           chittyId := env_or (case cl of None \<Rightarrow> None | Some c \<Rightarrow> c_chitty_id c)
                              (case cl of None \<Rightarrow> None | Some c \<Rightarrow> c_sub c)\<rparr>)"

text \<open>
  The request as the middleware sees it: what \<open>req.isAuthenticated()\<close> answers, and
  \<open>req.user\<close>. The middleware ends in \<open>next()\<close>, in a response, or (when the session claims
  to be authenticated but holds no user) in the \<open>TypeError\<close> of reading a property of
  \<open>undefined\<close>. \<open>getOidcConfig\<close> (memoised discovery) and \<open>client.refreshTokenGrant\<close> are the
  identity provider's side and are parameters; \<open>Date.now()\<close> is a parameter in
  milliseconds.
\<close>

record auth_request =
  req_isAuthenticated :: bool
  req_user :: "session_user option"

datatype auth_outcome = Next session_user | Respond response | Thrown error

definition Unauthorized :: response where
  "Unauthorized = \<lparr>status = 401, json = Message ''Unauthorized''\<rparr>"

definition isAuthenticated ::
  "error + 'cfg \<Rightarrow> ('cfg \<Rightarrow> string \<Rightarrow> error + tokens) \<Rightarrow> int \<Rightarrow> auth_request
     \<Rightarrow> 'st world \<Rightarrow> auth_outcome \<times> 'st world" where
  "isAuthenticated getOidcConfig refreshTokenGrant date_now req w =
     (if \<not> req_isAuthenticated req then (Respond Unauthorized, w)
      else case req_user req of
        None \<Rightarrow>
          (Thrown (''Cannot read properties of undefined (reading ''
                   @ [CHR 0x27] @ ''expires_at'' @ [CHR 0x27] @ '')''), w)
      | Some user \<Rightarrow>
          (case expires_at user of
             None \<Rightarrow> (Respond Unauthorized, w)
           | Some expiry \<Rightarrow>
               if expiry = 0 then (Respond Unauthorized, w)
               else
                 let now = date_now div 1000 in
                 if now \<le> expiry then (Next user, w)
                 else if \<not> env_truthy (refresh_token user) then (Respond Unauthorized, w)
                 else
                   let refreshToken = env_text (refresh_token user);
                       w1 = record_event GetOidcConfig w
                   in (case getOidcConfig of
                         Inl err \<Rightarrow> (Respond Unauthorized, w1)
                       | Inr config \<Rightarrow>
                           let w2 = record_event (RefreshTokenGrant refreshToken) w1 in
                           (case refreshTokenGrant config refreshToken of
                              Inl err \<Rightarrow> (Respond Unauthorized, w2)
                            | Inr tokenResponse \<Rightarrow>
                                (Next (updateUserSession user tokenResponse), w2)))))"

text \<open>The number of refresh-token grants in a trace.\<close>

fun refresh_grants :: "event list \<Rightarrow> nat" where
  "refresh_grants [] = 0"
| "refresh_grants (RefreshTokenGrant t # evs) = Suc (refresh_grants evs)"
| "refresh_grants (ev # evs) = refresh_grants evs"

section \<open>Concrete collaborators\<close>

text \<open>
  Small instances of the parameters, on which the model is run: a storage whose every
  operation throws, one whose every operation succeeds, a gateway that answers a fixed
  completion text, an engine whose \<open>JSON.parse\<close> is given by a table (and which keeps
  the value of a numeric string as it is), and an environment with an API key.
\<close>

definition failing_storage :: "string \<Rightarrow> unit storage" where
  "failing_storage msg =
     \<lparr>createProperty = (\<lambda>row st. (Inl msg, st)),
      getPropertiesByUser = (\<lambda>u st. (Inl msg, st)),
      createRTLOQuestion = (\<lambda>row st. (Inl msg, st)),
      getRTLOQuestionsByUser = (\<lambda>u st. (Inl msg, st)),
      createDocument = (\<lambda>row st. (Inl msg, st)),
      getDocumentsByUser = (\<lambda>u st. (Inl msg, st)),
      createAIAnalysis = (\<lambda>row st. (Inl msg, st)),
      getAIAnalysesByUser = (\<lambda>u st. (Inl msg, st))\<rparr>"

definition accepting_storage :: "unit storage" where
  "accepting_storage =
     \<lparr>createProperty = (\<lambda>row st. (Inr (JObj [(''id'', JStr ''p1'')]), st)),
      getPropertiesByUser = (\<lambda>u st. (Inr (JArr []), st)),
      createRTLOQuestion = (\<lambda>row st. (Inr (JObj [(''id'', JStr ''q1'')]), st)),
      getRTLOQuestionsByUser = (\<lambda>u st. (Inr (JArr []), st)),
      createDocument = (\<lambda>row st. (Inr (JObj [(''id'', JStr ''d1'')]), st)),
      getDocumentsByUser = (\<lambda>u st. (Inr (JArr []), st)),
      createAIAnalysis = (\<lambda>row st. (Inr (JObj [(''id'', JStr ''a1'')]), st)),
      getAIAnalysesByUser = (\<lambda>u st. (Inr [], st))\<rparr>"

definition fetch_replying :: "string \<Rightarrow> fetch_request \<Rightarrow> error + fetch_response" where
  "fetch_replying text rq =
     Inr \<lparr>rs_ok = True, rs_status = 200, rs_text = Inr [],
          rs_json = Inr (JObj [(''result'', JObj [(''response'', JStr text)]),
                               (''success'', JBool True),
                               (''errors'', JArr [])])\<rparr>"

definition fetch_rejecting :: "string \<Rightarrow> fetch_request \<Rightarrow> error + fetch_response" where
  "fetch_rejecting msg rq = Inl msg"

definition table_runtime :: "(string \<times> jsval) list \<Rightarrow> runtime" where
  "table_runtime table =
     \<lparr>JSON_parse = (\<lambda>v. case v of
                       JStr s \<Rightarrow> (case map_of table s of
                                    Some parsed \<Rightarrow> Inr parsed
                                  | None \<Rightarrow> Inl ''Unexpected token in JSON'')
                     | _ \<Rightarrow> Inl ''Unexpected token in JSON''),
      JSON_stringify = (\<lambda>v. JStr ''{}''),
      Number_toString = (\<lambda>n. ''0''),
      Object_toString = (\<lambda>v. Inr ''[object Object]''),
      Number_nearest = Fin\<rparr>"

definition test_env :: env where
  "test_env = \<lparr>CLOUDFLARE_ACCOUNT_ID = Some ''acct'', CHITTY_API_KEY = Some ''key'',
               CLOUDFLARE_API_TOKEN = None, CHITTY_AI_MODEL = None\<rparr>"

definition w0 :: "unit world" where
  "w0 = \<lparr>store = (), trace = []\<rparr>"



definition lease_reply_text :: string where
  \<open>lease_reply_text = ''{"complianceScore":"high","issues":null,"recommendations":"none"}''\<close>

definition lease_reply_parsed :: jsval where
  "lease_reply_parsed =
     JObj [(''complianceScore'', JStr ''high''), (''issues'', JNull),
           (''recommendations'', JStr ''none'')]"

definition lease_runtime :: runtime where
  "lease_runtime = table_runtime [(lease_reply_text, lease_reply_parsed)]"

definition sample_lease :: jsval where
  "sample_lease = JStr ''Tenant shall pay a security deposit of three months rent.''"

definition stale_user :: session_user where
  "stale_user =
     \<lparr>u_claims = None, access_token = Some ''at-0'', refresh_token = Some ''rt-0'',
      expires_at = Some 1600000000, chittyId = None\<rparr>"

definition stale_request :: auth_request where
  "stale_request = \<lparr>req_isAuthenticated = True, req_user = Some stale_user\<rparr>"

definition fresh_tokens :: tokens where
  "fresh_tokens =
     \<lparr>t_claims = Some \<lparr>c_exp = Some 1800000000, c_chitty_id = None, c_sub = Some ''user-1''\<rparr>,
      t_access_token = ''at-1'', t_refresh_token = Some ''rt-1''\<rparr>"

definition granting :: "unit \<Rightarrow> string \<Rightarrow> error + tokens" where
  "granting config refreshToken = Inr fresh_tokens"

definition question_body :: jsval where
  "question_body = JObj [(''question'', JStr ''When is the deposit due back?'')]"


section \<open>The eligibility rule, proved\<close>

lemma isRtloCovered_of_iff:
  "isRtloCovered_of pd \<longleftrightarrow> \<not> (truthy_bool (isOwnerOccupied pd) \<and> units_or_1 (units pd) \<le> 6)"
  by (simp add: isRtloCovered_of_def)







section \<open>ChittyID validation, proved\<close>

text \<open>The matcher decides membership in the language of the pattern.\<close>

lemma accepts_empty_lang: "accepts_empty r \<longleftrightarrow> [] \<in> lang r"
  by (induction r) auto

lemma lang_SeqI: "u \<in> lang r \<Longrightarrow> v \<in> lang s \<Longrightarrow> u @ v \<in> lang (Seq r s)"
  by auto

lemma lang_deriv: "w \<in> lang (deriv c r) \<longleftrightarrow> c # w \<in> lang r"
proof (induction r arbitrary: w)
  case (Seq r s)
  show ?case
  proof
    assume "w \<in> lang (deriv c (Seq r s))"
    then consider (left) u v where "w = u @ v" "u \<in> lang (deriv c r)" "v \<in> lang s"
      | (right) "accepts_empty r" "w \<in> lang (deriv c s)"
      by (auto split: if_splits)
    then show "c # w \<in> lang (Seq r s)"
    proof cases
      case left
      then have "c # u \<in> lang r" using Seq.IH(1) by simp
      then have "(c # u) @ v \<in> lang (Seq r s)" using left(3) by (rule lang_SeqI)
      with left(1) show ?thesis by simp
    next
      case right
      then have "[] \<in> lang r" "c # w \<in> lang s"
        using Seq.IH(2) by (simp_all add: accepts_empty_lang)
      then have "[] @ (c # w) \<in> lang (Seq r s)" by (rule lang_SeqI)
      then show ?thesis by simp
    qed
  next
    assume "c # w \<in> lang (Seq r s)"
    then obtain u v where uv: "c # w = u @ v" "u \<in> lang r" "v \<in> lang s" by auto
    show "w \<in> lang (deriv c (Seq r s))"
    proof (cases u)
      case Nil
      with uv have "accepts_empty r" "w \<in> lang (deriv c s)"
        using Seq.IH(2) by (simp_all add: accepts_empty_lang)
      then show ?thesis by simp
    next
      case (Cons a u')
      with uv have "a = c" "w = u' @ v" "u' \<in> lang (deriv c r)"
        using Seq.IH(1) by simp_all
      then have "u' @ v \<in> lang (Seq (deriv c r) s)" using uv(3) by (intro lang_SeqI)
      with \<open>w = u' @ v\<close> show ?thesis by simp
    qed
  qed
qed auto

lemma matches_lang: "matches r s \<longleftrightarrow> s \<in> lang r"
  by (induction s arbitrary: r) (simp_all add: accepts_empty_lang lang_deriv)

lemma lang_literal: "lang (literal w) = {w}"
  by (induction w) auto

lemma lang_alternatives: "lang (alternatives rs) = (\<Union>r\<in>set rs. lang r)"
  by (induction rs) auto

lemma lang_Seq_Class:
  "w \<in> lang (Seq (Class ranges) r) \<longleftrightarrow> (\<exists>c v. w = c # v \<and> in_class ranges c \<and> v \<in> lang r)"
  (is "?lhs \<longleftrightarrow> ?rhs")
proof
  assume ?lhs
  then obtain u v where "w = u @ v" "u \<in> lang (Class ranges)" "v \<in> lang r"
    by auto
  then show ?rhs by auto
next
  assume ?rhs
  then obtain c v where w: "w = c # v" and "in_class ranges c" "v \<in> lang r"
    by auto
  then have "[c] @ v \<in> lang (Seq (Class ranges) r)"
    by (intro lang_SeqI) auto
  with w show ?lhs by simp
qed

lemma lang_repeat_class:
  "w \<in> lang (repeat n (Class ranges)) \<longleftrightarrow> length w = n \<and> list_all (in_class ranges) w"
proof (induction n arbitrary: w)
  case 0
  show ?case by auto
next
  case (Suc n)
  have "w \<in> lang (repeat (Suc n) (Class ranges)) \<longleftrightarrow>
          (\<exists>c v. w = c # v \<and> in_class ranges c \<and> v \<in> lang (repeat n (Class ranges)))"
    unfolding repeat.simps by (rule lang_Seq_Class)
  also have "\<dots> \<longleftrightarrow> (\<exists>c v. w = c # v \<and> in_class ranges c \<and> length v = n
                              \<and> list_all (in_class ranges) v)"
    by (simp only: Suc.IH)
  also have "\<dots> \<longleftrightarrow> length w = Suc n \<and> list_all (in_class ranges) w"
    by (cases w) auto
  finally show ?case .
qed

lemma in_class_UPPER_ALNUM: "in_class UPPER_ALNUM = upper_alnum"
  by (rule ext) (simp add: in_class_def UPPER_ALNUM_def upper_alnum_def)

lemma lang_Seq_literal: "w \<in> lang (Seq (literal p) r) \<longleftrightarrow> (\<exists>v. w = p @ v \<and> v \<in> lang r)"
  by (auto simp: lang_literal)

lemma lang_Seq_Lit: "w \<in> lang (Seq (Lit c) r) \<longleftrightarrow> (\<exists>v. w = c # v \<and> v \<in> lang r)"
  by auto

lemma lang_Seq_tags:
  "w \<in> lang (Seq (alternatives (map literal tags)) r) \<longleftrightarrow>
     (\<exists>tag v. tag \<in> set tags \<and> w = tag @ v \<and> v \<in> lang r)"
  by (auto simp: lang_alternatives lang_literal)

lemma lang_repeat_upper:
  "w \<in> lang (repeat n (Class UPPER_ALNUM)) \<longleftrightarrow> length w = n \<and> list_all upper_alnum w"
  by (simp add: lang_repeat_class in_class_UPPER_ALNUM)

lemma lang_Seq_repeat:
  "w \<in> lang (Seq (repeat n (Class UPPER_ALNUM)) r) \<longleftrightarrow>
     (\<exists>u v. length u = n \<and> list_all upper_alnum u \<and> w = u @ v \<and> v \<in> lang r)"
  unfolding lang.simps by (auto simp: lang_repeat_upper)

lemma lang_CHITTYID_PATTERN:
  "s \<in> lang CHITTYID_PATTERN \<longleftrightarrow>
     (\<exists>v1. s = ''CHITTY-'' @ v1 \<and> (\<exists>tag v2. tag \<in> set ENTITY_TAGS \<and> v1 = tag @ v2
        \<and> (\<exists>v3. v2 = CHR ''-'' # v3 \<and> (\<exists>seq v4. length seq = 8 \<and> list_all upper_alnum seq
        \<and> v3 = seq @ v4 \<and> (\<exists>chk. v4 = CHR ''-'' # chk \<and> length chk = 4 \<and> list_all upper_alnum chk)))))"
  unfolding CHITTYID_PATTERN_def lang_Seq_literal lang_Seq_tags lang_Seq_Lit lang_Seq_repeat
    lang_repeat_upper ..

lemma validateChittyIDFormat_iff:
  "validateChittyIDFormat s \<longleftrightarrow>
     (\<exists>tag seq chk. tag \<in> set ENTITY_TAGS
        \<and> length seq = 8 \<and> list_all upper_alnum seq
        \<and> length chk = 4 \<and> list_all upper_alnum chk
        \<and> s = ''CHITTY-'' @ tag @ ''-'' @ seq @ ''-'' @ chk)"
  (is "?lhs \<longleftrightarrow> ?rhs")
proof
  assume ?lhs
  then have "s \<in> lang CHITTYID_PATTERN"
    by (simp add: validateChittyIDFormat_def matches_lang)
  then obtain tag seq chk where "tag \<in> set ENTITY_TAGS" "length seq = 8" "list_all upper_alnum seq"
      "length chk = 4" "list_all upper_alnum chk"
      "s = ''CHITTY-'' @ tag @ CHR ''-'' # seq @ CHR ''-'' # chk"
    unfolding lang_CHITTYID_PATTERN by blast
  then show ?rhs by (intro exI [of _ tag] exI [of _ seq] exI [of _ chk]) simp
next
  assume ?rhs
  then obtain tag seq chk where "tag \<in> set ENTITY_TAGS" "length seq = 8" "list_all upper_alnum seq"
      "length chk = 4" "list_all upper_alnum chk"
      "s = ''CHITTY-'' @ tag @ CHR ''-'' # seq @ CHR ''-'' # chk"
    by auto
  then have "s \<in> lang CHITTYID_PATTERN"
    unfolding lang_CHITTYID_PATTERN by blast
  then show ?lhs
    by (simp add: validateChittyIDFormat_def matches_lang)
qed

lemma upper_alnum_not_lower: "upper_alnum c \<Longrightarrow> \<not> lower_case c"
  by (auto simp: upper_alnum_def lower_case_def)

lemma tag_not_lower: "tag \<in> set ENTITY_TAGS \<Longrightarrow> c \<in> set tag \<Longrightarrow> \<not> lower_case c"
  by (auto simp: ENTITY_TAGS_def lower_case_def)

lemma valid_no_lower:
  assumes "validateChittyIDFormat s" and "c \<in> set s"
  shows "\<not> lower_case c"
proof -
  from assms(1) obtain tag seq chk where parts: "tag \<in> set ENTITY_TAGS"
      "list_all upper_alnum seq" "list_all upper_alnum chk"
      "s = ''CHITTY-'' @ tag @ ''-'' @ seq @ ''-'' @ chk"
    unfolding validateChittyIDFormat_iff by blast
  from assms(2) parts(4) consider "c \<in> set ''CHITTY-''" | "c \<in> set tag" | "c = CHR ''-''"
    | "c \<in> set seq" | "c \<in> set chk"
    by auto
  then show ?thesis
  proof cases
    case 1
    then show ?thesis by (auto simp: lower_case_def)
  next
    case 2
    with parts(1) show ?thesis by (rule tag_not_lower)
  next
    case 3
    then show ?thesis by (simp add: lower_case_def)
  next
    case 4
    with parts(2) show ?thesis by (auto simp: list_all_iff upper_alnum_not_lower)
  next
    case 5
    with parts(3) show ?thesis by (auto simp: list_all_iff upper_alnum_not_lower)
  qed
qed

text \<open>
  C7. \<open>validateChittyIDFormat\<close> accepts \<open>CHITTY-PEO-ABCD1234-WXYZ\<close>, rejects
  \<open>CHITTY-XYZ-12-AB\<close>, and accepts exactly the strings \<open>CHITTY-\<close>, an entity tag of the
  fixed set, \<open>-\<close>, eight alphanumerics, \<open>-\<close>, four alphanumerics, where an alphanumeric
  is a character of the pattern's class \<open>[A-Z0-9]\<close>.
\<close>

theorem chittyid_format_accepted:
  "validateChittyIDFormat ''CHITTY-PEO-ABCD1234-WXYZ''
   \<and> \<not> validateChittyIDFormat ''CHITTY-XYZ-12-AB''
   \<and> (\<forall>s. validateChittyIDFormat s \<longleftrightarrow>
          (\<exists>tag seq chk. tag \<in> set ENTITY_TAGS
             \<and> length seq = 8 \<and> list_all upper_alnum seq
             \<and> length chk = 4 \<and> list_all upper_alnum chk
             \<and> s = ''CHITTY-'' @ tag @ ''-'' @ seq @ ''-'' @ chk))"
proof (intro conjI allI)
  show "validateChittyIDFormat ''CHITTY-PEO-ABCD1234-WXYZ''"
    by (simp add: validateChittyIDFormat_def CHITTYID_PATTERN_def ENTITY_TAGS_def
          UPPER_ALNUM_def in_class_def eval_nat_numeral)
  show "\<not> validateChittyIDFormat ''CHITTY-XYZ-12-AB''"
    by (simp add: validateChittyIDFormat_def CHITTYID_PATTERN_def ENTITY_TAGS_def
          UPPER_ALNUM_def in_class_def eval_nat_numeral)
next
  fix s
  show "validateChittyIDFormat s \<longleftrightarrow>
          (\<exists>tag seq chk. tag \<in> set ENTITY_TAGS
             \<and> length seq = 8 \<and> list_all upper_alnum seq
             \<and> length chk = 4 \<and> list_all upper_alnum chk
             \<and> s = ''CHITTY-'' @ tag @ ''-'' @ seq @ ''-'' @ chk)"
    by (rule validateChittyIDFormat_iff)
qed

theorem chittyid_format_accepted_witness:
  "validateChittyIDFormat ''CHITTY-SERVICE-00AA11BB-9Z9Z''"
proof -
  have "''SERVICE'' \<in> set ENTITY_TAGS \<and> length ''00AA11BB'' = 8 \<and> list_all upper_alnum ''00AA11BB''
        \<and> length ''9Z9Z'' = 4 \<and> list_all upper_alnum ''9Z9Z''
        \<and> ''CHITTY-SERVICE-00AA11BB-9Z9Z'' = ''CHITTY-'' @ ''SERVICE'' @ ''-'' @ ''00AA11BB'' @ ''-'' @ ''9Z9Z''"
    by (simp add: ENTITY_TAGS_def upper_alnum_def)
  then show ?thesis
    using chittyid_format_accepted by blast
qed

text \<open>
  C10. The validation is case-sensitive: a ChittyID with a lower-case letter anywhere
  in its sequence or checksum segment is rejected, whatever its entity tag.
\<close>

theorem chittyid_case_sensitive:
  assumes "\<exists>c. c \<in> set (seq @ chk) \<and> lower_case c"
  shows "\<not> validateChittyIDFormat (''CHITTY-'' @ tag @ ''-'' @ seq @ ''-'' @ chk)"
proof
  assume valid: "validateChittyIDFormat (''CHITTY-'' @ tag @ ''-'' @ seq @ ''-'' @ chk)"
  from assms obtain c where c: "c \<in> set (seq @ chk)" "lower_case c"
    by blast
  then have "c \<in> set (''CHITTY-'' @ tag @ ''-'' @ seq @ ''-'' @ chk)"
    by auto
  with valid have "\<not> lower_case c"
    by (rule valid_no_lower)
  with c(2) show False by simp
qed

theorem chittyid_case_sensitive_witness:
  "lower_case CHR ''d'' \<and> CHR ''d'' \<in> set (''ABCd1234'' @ ''WXYZ'')
   \<and> \<not> validateChittyIDFormat ''CHITTY-PEO-ABCd1234-WXYZ''"
proof -
  have low: "\<exists>c. c \<in> set (''ABCd1234'' @ ''WXYZ'') \<and> lower_case c"
    by (rule exI [of _ "CHR ''d''"]) (simp add: lower_case_def)
  have "\<not> validateChittyIDFormat (''CHITTY-'' @ ''PEO'' @ ''-'' @ ''ABCd1234'' @ ''-'' @ ''WXYZ'')"
    using low by (rule chittyid_case_sensitive)
  then show ?thesis
    by (simp add: lower_case_def)
qed

section \<open>The gateway client, proved\<close>

lemma includes_levels:
  "includes_str [''high'', ''medium'', ''low''] c \<longleftrightarrow> c \<in> {JStr ''high'', JStr ''medium'', JStr ''low''}"
  by (cases c) auto

lemma andThen_Inr: "andThen r f = Inr y \<longleftrightarrow> (\<exists>x. r = Inr x \<and> f x = Inr y)"
  by (cases r) (simp_all add: andThen_def)

lemma rethrow_Inr: "rethrow p r = Inr y \<longleftrightarrow> r = Inr y"
  by (cases r) (simp_all add: rethrow_def)

lemma rtlo_answer_of_confidence:
  assumes "rtlo_answer_of result = Inr r"
  shows "\<exists>c. get_prop result ''confidence'' = Inr c
           \<and> confidence r = (if c \<in> {JStr ''high'', JStr ''medium'', JStr ''low''} then c else JStr ''low'')"
proof -
  from assms obtain a s c c' where
      c: "get_prop result ''confidence'' = Inr c"
    and c': "(if includes_str [''high'', ''medium'', ''low''] c
              then get_prop result ''confidence'' else Inr (JStr ''low'')) = Inr c'"
    and r: "r = \<lparr>answer = js_or a (JStr ''Unable to provide specific guidance. Please consult the full Chicago RTLO text or legal counsel.''),
            rtloSection = js_or s JNull, confidence = c'\<rparr>"
    unfolding rtlo_answer_of_def andThen_Inr by blast
  from c c' have "c' = (if c \<in> {JStr ''high'', JStr ''medium'', JStr ''low''} then c else JStr ''low'')"
    unfolding includes_levels by (simp split: if_splits)
  with c r show ?thesis by simp
qed

lemma analyzeRTLOQuestion_Inr:
  assumes "analyzeRTLOQuestion rt e fetch question w = (Inr r, w')"
  shows "\<exists>response result.
           chatCompletion rt e fetch (rtlo_messages question) True w = (Inr response, w')
           \<and> JSON_parse rt response = Inr result \<and> rtlo_answer_of result = Inr r"
proof -
  obtain x w1 where cc: "chatCompletion rt e fetch (rtlo_messages question) True w = (x, w1)"
    by (cases "chatCompletion rt e fetch (rtlo_messages question) True w")
  with assms have w1: "w1 = w'"
    and "rethrow ''Failed to analyze RTLO question: ''
           (andThen x (\<lambda>response. andThen (JSON_parse rt response) rtlo_answer_of)) = Inr r"
    by (simp_all add: analyzeRTLOQuestion_def)
  then obtain response result where "x = Inr response" "JSON_parse rt response = Inr result"
      "rtlo_answer_of result = Inr r"
    unfolding rethrow_Inr andThen_Inr by blast
  with cc w1 show ?thesis by blast
qed

text \<open>
  C4. Whenever \<open>analyzeRTLOQuestion\<close> returns, the confidence it returns is one of
  \<open>high\<close>, \<open>medium\<close>, \<open>low\<close>: it is the \<open>confidence\<close> of the parsed upstream response when
  that is one of the three, and \<open>low\<close> for any other value, a missing one included.
\<close>

theorem confidence_is_a_level:
  assumes "analyzeRTLOQuestion rt e fetch question w = (Inr r, w')"
  shows "confidence r \<in> {JStr ''high'', JStr ''medium'', JStr ''low''}
         \<and> (\<exists>response result c.
               chatCompletion rt e fetch (rtlo_messages question) True w = (Inr response, w')
               \<and> JSON_parse rt response = Inr result
               \<and> get_prop result ''confidence'' = Inr c
               \<and> confidence r = (if c \<in> {JStr ''high'', JStr ''medium'', JStr ''low''}
                                  then c else JStr ''low''))"
proof -
  from assms obtain response result where up:
      "chatCompletion rt e fetch (rtlo_messages question) True w = (Inr response, w')"
      "JSON_parse rt response = Inr result" "rtlo_answer_of result = Inr r"
    using analyzeRTLOQuestion_Inr by blast
  from up(3) obtain c where c: "get_prop result ''confidence'' = Inr c"
      "confidence r = (if c \<in> {JStr ''high'', JStr ''medium'', JStr ''low''} then c else JStr ''low'')"
    using rtlo_answer_of_confidence by blast
  from c(2) have "confidence r \<in> {JStr ''high'', JStr ''medium'', JStr ''low''}"
    by (auto split: if_splits)
  with up(1,2) c show ?thesis by blast
qed

lemmas gateway_defs =
  analyzeRTLOQuestion_def chatCompletion_def call_fetch_def record_event_def completion_of_def
  fetch_replying_def table_runtime_def test_env_def w0_def env_or_def andThen_def rethrow_def
  rtlo_answer_of_def js_or_def getModel_def CHITTYGATEWAY_URL_def

theorem confidence_is_a_level_witness:
  "\<exists>r w'. analyzeRTLOQuestion
             (table_runtime [(''r1'', JObj [(''answer'', JStr ''Within 45 days.''),
                                            (''confidence'', JStr ''certain'')])])
             test_env (fetch_replying ''r1'') (JStr ''When is the deposit due back?'') w0
           = (Inr r, w')
         \<and> confidence r = JStr ''low''"
proof -
  let ?run = "analyzeRTLOQuestion
             (table_runtime [(''r1'', JObj [(''answer'', JStr ''Within 45 days.''),
                                            (''confidence'', JStr ''certain'')])])
             test_env (fetch_replying ''r1'') (JStr ''When is the deposit due back?'') w0"
  have "fst ?run = Inr \<lparr>answer = JStr ''Within 45 days.'', rtloSection = JNull,
                         confidence = JStr ''low''\<rparr>"
    by (simp add: gateway_defs)
  then obtain w' where run: "?run = (Inr \<lparr>answer = JStr ''Within 45 days.'', rtloSection = JNull,
                         confidence = JStr ''low''\<rparr>, w')"
    by (cases ?run) simp
  from confidence_is_a_level [OF run] run show ?thesis
    by auto
qed

lemma lease_analysis_of_fields:
  assumes "lease_analysis_of rt result = Inr r"
  shows "\<exists>score n i rc.
           get_prop result ''complianceScore'' = Inr score
           \<and> ToNumber rt (js_or score (JNum (Fin 0))) = Inr n
           \<and> get_prop result ''issues'' = Inr i
           \<and> get_prop result ''recommendations'' = Inr rc
           \<and> r = \<lparr>complianceScore = Math_max (Fin 0) (Math_min (Fin 100) n),
                   issues = (if isArray i then i else JArr []),
                   recommendations = (if isArray rc then rc else JArr [])\<rparr>"
  using assms unfolding lease_analysis_of_def andThen_Inr by blast

lemma analyzeLeaseCompliance_Inr:
  assumes "analyzeLeaseCompliance rt e fetch leaseText w = (Inr r, w')"
  shows "\<exists>ltext response result.
           ToString rt leaseText = Inr ltext
           \<and> chatCompletion rt e fetch (lease_messages ltext) True w = (Inr response, w')
           \<and> JSON_parse rt response = Inr result \<and> lease_analysis_of rt result = Inr r"
proof (cases "ToString rt leaseText")
  case (Inl err)
  with assms show ?thesis by (simp add: analyzeLeaseCompliance_def)
next
  case (Inr ltext)
  obtain x w1 where cc: "chatCompletion rt e fetch (lease_messages ltext) True w = (x, w1)"
    by (cases "chatCompletion rt e fetch (lease_messages ltext) True w")
  with assms Inr have w1: "w1 = w'"
    and "rethrow ''Failed to analyze lease compliance: ''
           (andThen x (\<lambda>response. andThen (JSON_parse rt response) (lease_analysis_of rt))) = Inr r"
    by (simp_all add: analyzeLeaseCompliance_def)
  then obtain response result where "x = Inr response" "JSON_parse rt response = Inr result"
      "lease_analysis_of rt result = Inr r"
    unfolding rethrow_Inr andThen_Inr by blast
  with cc w1 Inr show ?thesis by blast
qed

text \<open>
  C8. Whenever \<open>analyzeLeaseCompliance\<close> returns, its \<open>issues\<close> is the \<open>issues\<close> of the parsed
  upstream response when that is an array and the empty array otherwise (missing, \<open>null\<close>,
  an object, a string, ...); likewise for \<open>recommendations\<close>.
\<close>

theorem malformed_arrays_default_to_empty:
  assumes "analyzeLeaseCompliance rt e fetch leaseText w = (Inr r, w')"
  shows "\<exists>ltext response result i rc.
           ToString rt leaseText = Inr ltext
           \<and> chatCompletion rt e fetch (lease_messages ltext) True w = (Inr response, w')
           \<and> JSON_parse rt response = Inr result
           \<and> get_prop result ''issues'' = Inr i
           \<and> get_prop result ''recommendations'' = Inr rc
           \<and> issues r = (if isArray i then i else JArr [])
           \<and> recommendations r = (if isArray rc then rc else JArr [])"
proof -
  from assms obtain ltext response result where up:
      "ToString rt leaseText = Inr ltext"
      "chatCompletion rt e fetch (lease_messages ltext) True w = (Inr response, w')"
      "JSON_parse rt response = Inr result" "lease_analysis_of rt result = Inr r"
    using analyzeLeaseCompliance_Inr by blast
  from up(4) obtain i rc where f: "get_prop result ''issues'' = Inr i"
      "get_prop result ''recommendations'' = Inr rc"
      "issues r = (if isArray i then i else JArr [])"
      "recommendations r = (if isArray rc then rc else JArr [])"
    using lease_analysis_of_fields [of rt result r] by auto
  with up(1,2,3) show ?thesis by blast
qed

lemmas lease_run_defs =
  analyzeLeaseCompliance_def lease_messages_def chatCompletion_def call_fetch_def
  record_event_def completion_of_def fetch_replying_def table_runtime_def test_env_def w0_def
  env_or_def andThen_def rethrow_def lease_analysis_of_def js_or_def getModel_def
  CHITTYGATEWAY_URL_def lease_runtime_def lease_reply_text_def lease_reply_parsed_def
  sample_lease_def Math_max_def Math_min_def

lemma StringToNumber_high: "StringToNumber nearest ''high'' = NaN"
  by (simp add: StringToNumber_def trim_def isStrWhiteSpaceChar_def radix_literal_def
        unsigned_decimal_def is_digit_def digit_value_def all_digits_def)

lemma lease_run:
  "fst (analyzeLeaseCompliance lease_runtime test_env (fetch_replying lease_reply_text)
          sample_lease w0)
     = Inr \<lparr>complianceScore = NaN, issues = JArr [], recommendations = JArr []\<rparr>"
  by (simp add: lease_run_defs StringToNumber_high)

theorem malformed_arrays_default_to_empty_witness:
  "\<exists>r w'. analyzeLeaseCompliance lease_runtime test_env (fetch_replying lease_reply_text)
             sample_lease w0 = (Inr r, w')
         \<and> get_prop lease_reply_parsed ''issues'' = Inr JNull
         \<and> get_prop lease_reply_parsed ''recommendations'' = Inr (JStr ''none'')
         \<and> issues r = JArr [] \<and> recommendations r = JArr []"
proof -
  let ?run = "analyzeLeaseCompliance lease_runtime test_env (fetch_replying lease_reply_text)
                sample_lease w0"
  obtain w' where run: "?run = (Inr \<lparr>complianceScore = NaN, issues = JArr [],
                                       recommendations = JArr []\<rparr>, w')"
    using lease_run by (cases ?run) simp
  from malformed_arrays_default_to_empty [OF run] run show ?thesis
    by (simp add: lease_reply_parsed_def)
qed

text \<open>
  C3. The score is \<open>Math.max(0, Math.min(100, result.complianceScore || 0))\<close>. An upstream
  response whose \<open>complianceScore\<close> is the string \<open>"high"\<close> is truthy, converts to \<open>NaN\<close>, and
  \<open>NaN\<close> passes through both \<open>Math.min\<close> and \<open>Math.max\<close>: the analysis returned, and the
  body of the 200 response of POST /api/ai-analysis, carry \<open>NaN\<close> (which \<open>res.json\<close> writes
  as \<open>null\<close>), not a number between 0 and 100.
\<close>

theorem non_numeric_score_is_not_clamped:
  "fst (analyzeLeaseCompliance lease_runtime test_env (fetch_replying lease_reply_text)
          sample_lease w0)
     = Inr \<lparr>complianceScore = NaN, issues = JArr [], recommendations = JArr []\<rparr>
   \<and> fst (post_ai_analysis lease_runtime test_env (fetch_replying lease_reply_text)
            accepting_storage (JObj [(''leaseText'', sample_lease)]) w0)
     = \<lparr>status = 200,
        json = Json (JObj [(''id'', JStr ''a1''),
                           (''analysis'', JObj [(''complianceScore'', JNum NaN),
                                                (''issues'', JArr []),
                                                (''recommendations'', JArr [])])])\<rparr>
   \<and> \<not> (num_le (Fin 0) NaN \<and> num_le NaN (Fin 100))"
proof (intro conjI)
  show "fst (analyzeLeaseCompliance lease_runtime test_env (fetch_replying lease_reply_text)
          sample_lease w0)
     = Inr \<lparr>complianceScore = NaN, issues = JArr [], recommendations = JArr []\<rparr>"
    by (rule lease_run)
  then obtain w' where run:
    "analyzeLeaseCompliance lease_runtime test_env (fetch_replying lease_reply_text)
          sample_lease w0
       = (Inr \<lparr>complianceScore = NaN, issues = JArr [], recommendations = JArr []\<rparr>, w')"
    by (cases "analyzeLeaseCompliance lease_runtime test_env (fetch_replying lease_reply_text)
          sample_lease (w0 :: unit world)") simp
  have body: "destructure ''req.body'' (JObj [(''leaseText'', sample_lease)]) ''leaseText''
                = Inr sample_lease"
       "destructure ''req.body'' (JObj [(''leaseText'', sample_lease)]) ''documentId''
                = Inr JUndefined"
       "truthy sample_lease"
    by (simp_all add: destructure_def sample_lease_def)
  show "fst (post_ai_analysis lease_runtime test_env (fetch_replying lease_reply_text)
            accepting_storage (JObj [(''leaseText'', sample_lease)]) w0)
     = \<lparr>status = 200,
        json = Json (JObj [(''id'', JStr ''a1''),
                           (''analysis'', JObj [(''complianceScore'', JNum NaN),
                                                (''issues'', JArr []),
                                                (''recommendations'', JArr [])])])\<rparr>"
    by (simp add: post_ai_analysis_def body run andThen_def call_storage_def
          accepting_storage_def spread_with_def lease_analysis_object_def)
  show "\<not> (num_le (Fin 0) NaN \<and> num_le NaN (Fin 100))"
    by simp
qed

lemma clamp_in_range:
  assumes "n \<noteq> NaN"
  shows "num_le (Fin 0) (Math_max (Fin 0) (Math_min (Fin 100) n))
         \<and> num_le (Math_max (Fin 0) (Math_min (Fin 100) n)) (Fin 100)"
  using assms by (cases n) (auto simp: Math_max_def Math_min_def)

text \<open>
  For a score that is a number, \<open>null\<close> or absent the clamp does what it is there for.
\<close>

lemma numeric_score_is_clamped:
  assumes "lease_analysis_of rt result = Inr r"
      and "get_prop result ''complianceScore'' = Inr score"
      and "score = JUndefined \<or> score = JNull \<or> (\<exists>n. score = JNum n)"
  shows "num_le (Fin 0) (complianceScore r) \<and> num_le (complianceScore r) (Fin 100)"
proof -
  from assms(1,2) obtain n where n: "ToNumber rt (js_or score (JNum (Fin 0))) = Inr n"
      "complianceScore r = Math_max (Fin 0) (Math_min (Fin 100) n)"
    using lease_analysis_of_fields [of rt result r] by auto
  from assms(3) n(1) have "n \<noteq> NaN"
    by (auto simp: js_or_def split: if_splits)
  with n(2) show ?thesis
    using clamp_in_range [of n] by simp
qed

section \<open>The route layer, proved\<close>

text \<open>
  C5. When the body of POST /api/rtlo-questions has no truthy \<open>question\<close> field (the field
  is missing, or is \<open>undefined\<close>, \<open>null\<close>, \<open>false\<close>, \<open>0\<close>, \<open>NaN\<close> or the empty string), the
  route answers 400 \<open>Question is required\<close> and leaves the world as it was: the stored
  state is unchanged and the trace gains no gateway request and no storage call.
\<close>

theorem missing_question_is_rejected:
  assumes "destructure ''req.body'' body ''question'' = Inr question"
      and "\<not> truthy question"
  shows "post_rtlo_questions rt e fetch storage body w
           = (\<lparr>status = 400, json = Message ''Question is required''\<rparr>, w)"
  using assms by (simp add: post_rtlo_questions_def)

theorem missing_question_is_rejected_witness:
  "post_rtlo_questions lease_runtime test_env (fetch_replying lease_reply_text) accepting_storage
     (JObj [(''topic'', JStr ''deposits'')]) w0
     = (\<lparr>status = 400, json = Message ''Question is required''\<rparr>, w0)"
proof -
  have "destructure ''req.body'' (JObj [(''topic'', JStr ''deposits'')]) ''question'' = Inr JUndefined"
    by (simp add: destructure_def)
  then show ?thesis
    by (rule missing_question_is_rejected) simp
qed

text \<open>
  Without any body (\<open>req.body\<close> is \<open>undefined\<close> or \<open>null\<close>) the destructuring itself throws
  and the route answers 500, again without a call.
\<close>

lemma absent_body_is_an_error:
  assumes "body = JUndefined \<or> body = JNull"
  shows "status (fst (post_rtlo_questions rt e fetch storage body w)) = 500
         \<and> snd (post_rtlo_questions rt e fetch storage body w) = w"
  using assms by (auto simp: post_rtlo_questions_def destructure_def)

section \<open>The session refresh, proved\<close>

lemma refresh_grants_append:
  "refresh_grants (xs @ ys) = refresh_grants xs + refresh_grants ys"
  by (induction xs rule: refresh_grants.induct) simp_all

text \<open>
  A stale session that holds a refresh token does not always reach the grant: when
  \<open>getOidcConfig()\<close> rejects, the \<open>catch\<close> answers 401 and no refresh-token grant was made.
\<close>

theorem refresh_needs_the_configuration:
  "req_isAuthenticated stale_request
   \<and> req_user stale_request = Some stale_user
   \<and> expires_at stale_user = Some 1600000000
   \<and> (1600000000 :: int) < 1700000000000 div 1000
   \<and> refresh_token stale_user = Some ''rt-0''
   \<and> isAuthenticated (Inl ''discovery failed'') granting 1700000000000 stale_request w0
       = (Respond Unauthorized, \<lparr>store = (), trace = [GetOidcConfig]\<rparr>)
   \<and> refresh_grants (trace (snd (isAuthenticated (Inl ''discovery failed'') granting
                                    1700000000000 stale_request w0))) \<noteq> 1"
  by (simp add: isAuthenticated_def stale_request_def stale_user_def w0_def record_event_def)

text \<open>
  C6, as the code has it. For an authenticated session whose \<open>expires_at\<close> is set, not zero
  and in the past: with a refresh token the middleware looks up the OIDC configuration
  and, once it has it, makes exactly one refresh-token grant; when the grant succeeds the
  session is updated from the new tokens and the request proceeds (\<open>next()\<close>) without a new
  login; when the grant fails, or the configuration cannot be had (then no grant is made),
  or the session holds no refresh token (then nothing is called), the answer is 401.
  In no case is more than one grant made.
\<close>

theorem stale_session_refresh:
  assumes "req_isAuthenticated req" and "req_user req = Some user"
      and "expires_at user = Some expiry" and "expiry \<noteq> 0"
      and "expiry < date_now div 1000"
  shows "(env_truthy (refresh_token user) \<and> getOidcConfig = Inr config
            \<and> refreshTokenGrant config (env_text (refresh_token user)) = Inr tk
          \<longrightarrow> isAuthenticated getOidcConfig refreshTokenGrant date_now req w
                = (Next (updateUserSession user tk),
                   w\<lparr>trace := trace w @ [GetOidcConfig,
                                          RefreshTokenGrant (env_text (refresh_token user))]\<rparr>))
       \<and> (env_truthy (refresh_token user) \<and> getOidcConfig = Inr config
            \<and> refreshTokenGrant config (env_text (refresh_token user)) = Inl err
          \<longrightarrow> isAuthenticated getOidcConfig refreshTokenGrant date_now req w
                = (Respond Unauthorized,
                   w\<lparr>trace := trace w @ [GetOidcConfig,
                                          RefreshTokenGrant (env_text (refresh_token user))]\<rparr>))
       \<and> (env_truthy (refresh_token user) \<and> getOidcConfig = Inl err
          \<longrightarrow> isAuthenticated getOidcConfig refreshTokenGrant date_now req w
                = (Respond Unauthorized, w\<lparr>trace := trace w @ [GetOidcConfig]\<rparr>))
       \<and> (\<not> env_truthy (refresh_token user)
          \<longrightarrow> isAuthenticated getOidcConfig refreshTokenGrant date_now req w
                = (Respond Unauthorized, w))
       \<and> refresh_grants (trace (snd (isAuthenticated getOidcConfig refreshTokenGrant date_now req w)))
           \<le> refresh_grants (trace w) + 1"
  using assms
  by (auto simp: isAuthenticated_def record_event_def Let_def refresh_grants_append
           split: sum.splits)

theorem stale_session_refresh_witness:
  "isAuthenticated (Inr ()) granting 1700000000000 stale_request w0
     = (Next \<lparr>u_claims = t_claims fresh_tokens, access_token = Some ''at-1'',
              refresh_token = Some ''rt-1'', expires_at = Some 1800000000,
              chittyId = Some ''user-1''\<rparr>,
        \<lparr>store = (), trace = [GetOidcConfig, RefreshTokenGrant ''rt-0'']\<rparr>)"
proof -
  have "isAuthenticated (Inr ()) granting 1700000000000 stale_request w0
          = (Next (updateUserSession stale_user fresh_tokens),
             w0\<lparr>trace := trace w0 @ [GetOidcConfig,
                                      RefreshTokenGrant (env_text (refresh_token stale_user))]\<rparr>)"
    using stale_session_refresh [where req = stale_request and user = stale_user
            and expiry = 1600000000 and date_now = 1700000000000
            and getOidcConfig = "Inr ()" and config = "()" and refreshTokenGrant = granting
            and tk = fresh_tokens and w = w0]
    by (simp add: stale_request_def stale_user_def granting_def)
  then show ?thesis
    by (simp add: updateUserSession_def stale_user_def fresh_tokens_def w0_def env_or_def)
qed

section \<open>Failures of the components, route by route\<close>

lemma contains_self: "contains m m"
  by (cases m) simp_all

lemma contains_append: "contains (p @ m) m"
  by (induction p) (simp_all add: contains_self)

lemma carries_prefixed: "carries (Message (p @ m)) m"
  by (simp add: contains_append)

lemma post_rtlo_questions_gateway_failure:
  assumes "destructure ''req.body'' body ''question'' = Inr question" and "truthy question"
      and "analyzeRTLOQuestion rt e fetch question w = (Inl m, w1)"
  shows "post_rtlo_questions rt e fetch storage body w
           = (\<lparr>status = 500, json = Message (''Failed to process question: '' @ m)\<rparr>, w1)"
  using assms by (simp add: post_rtlo_questions_def)

lemma post_rtlo_questions_storage_failure:
  assumes "destructure ''req.body'' body ''question'' = Inr question" and "truthy question"
      and "analyzeRTLOQuestion rt e fetch question w = (Inr analysis, w1)"
      and "createRTLOQuestion storage (question_row question analysis) (store w1) = (Inl m, st)"
  shows "fst (post_rtlo_questions rt e fetch storage body w)
           = \<lparr>status = 500, json = Message (''Failed to process question: '' @ m)\<rparr>"
  using assms by (simp add: post_rtlo_questions_def call_storage_def)

lemma post_rtlo_questions_400:
  assumes "status (fst (post_rtlo_questions rt e fetch storage body w)) = 400"
  shows "\<exists>question. destructure ''req.body'' body ''question'' = Inr question \<and> \<not> truthy question"
  using assms
  by (auto simp: post_rtlo_questions_def call_storage_def Let_def
           split: sum.splits prod.splits if_splits)

lemma post_documents_gateway_failure:
  assumes "destructure ''req.body'' body ''documentType'' = Inr documentType"
      and "destructure ''req.body'' body ''title'' = Inr title"
      and "destructure ''req.body'' body ''propertyId'' = Inr propertyId"
      and "destructure ''req.body'' body ''data'' = Inr data"
      and "truthy documentType" and "truthy title"
      and "generateRTLODocument rt e fetch documentType (js_or data (JObj [])) w = (Inl m, w1)"
  shows "post_documents rt e fetch storage body w
           = (\<lparr>status = 500, json = Message (''Failed to generate document: '' @ m)\<rparr>, w1)"
  using assms by (simp add: post_documents_def andThen_def)

lemma post_documents_storage_failure:
  assumes "destructure ''req.body'' body ''documentType'' = Inr documentType"
      and "destructure ''req.body'' body ''title'' = Inr title"
      and "destructure ''req.body'' body ''propertyId'' = Inr propertyId"
      and "destructure ''req.body'' body ''data'' = Inr data"
      and "truthy documentType" and "truthy title"
      and "generateRTLODocument rt e fetch documentType (js_or data (JObj [])) w = (Inr content, w1)"
      and "createDocument storage (document_row propertyId documentType title content data) (store w1)
             = (Inl m, st)"
  shows "fst (post_documents rt e fetch storage body w)
           = \<lparr>status = 500, json = Message (''Failed to generate document: '' @ m)\<rparr>"
  using assms by (simp add: post_documents_def andThen_def call_storage_def)

lemma post_documents_400:
  assumes "status (fst (post_documents rt e fetch storage body w)) = 400"
  shows "\<exists>documentType title.
           destructure ''req.body'' body ''documentType'' = Inr documentType
           \<and> destructure ''req.body'' body ''title'' = Inr title
           \<and> (\<not> truthy documentType \<or> \<not> truthy title)"
  using assms
  by (auto simp: post_documents_def andThen_def call_storage_def Let_def
           split: sum.splits prod.splits if_splits)

lemma post_ai_analysis_gateway_failure:
  assumes "destructure ''req.body'' body ''leaseText'' = Inr leaseText"
      and "destructure ''req.body'' body ''documentId'' = Inr documentId"
      and "truthy leaseText"
      and "analyzeLeaseCompliance rt e fetch leaseText w = (Inl m, w1)"
  shows "post_ai_analysis rt e fetch storage body w
           = (\<lparr>status = 500, json = Message (''Failed to perform AI analysis: '' @ m)\<rparr>, w1)"
  using assms by (simp add: post_ai_analysis_def andThen_def)

lemma post_ai_analysis_storage_failure:
  assumes "destructure ''req.body'' body ''leaseText'' = Inr leaseText"
      and "destructure ''req.body'' body ''documentId'' = Inr documentId"
      and "truthy leaseText"
      and "analyzeLeaseCompliance rt e fetch leaseText w = (Inr analysis, w1)"
      and "createAIAnalysis storage (analysis_row rt documentId leaseText analysis) (store w1)
             = (Inl m, st)"
  shows "fst (post_ai_analysis rt e fetch storage body w)
           = \<lparr>status = 500, json = Message (''Failed to perform AI analysis: '' @ m)\<rparr>"
  using assms by (simp add: post_ai_analysis_def andThen_def call_storage_def)

lemma post_ai_analysis_400:
  assumes "status (fst (post_ai_analysis rt e fetch storage body w)) = 400"
  shows "\<exists>leaseText. destructure ''req.body'' body ''leaseText'' = Inr leaseText
                    \<and> \<not> truthy leaseText"
  using assms
  by (auto simp: post_ai_analysis_def andThen_def call_storage_def Let_def
           split: sum.splits prod.splits if_splits)

lemma get_properties_failure:
  assumes "getPropertiesByUser storage ''anonymous'' (store w) = (Inl m, st)"
  shows "fst (get_properties storage w)
           = \<lparr>status = 500, json = Message ''Failed to fetch properties''\<rparr>"
  using assms by (simp add: get_properties_def call_storage_def)

lemma get_rtlo_questions_failure:
  assumes "getRTLOQuestionsByUser storage ''anonymous'' (store w) = (Inl m, st)"
  shows "fst (get_rtlo_questions storage w)
           = \<lparr>status = 500, json = Message ''Failed to fetch questions''\<rparr>"
  using assms by (simp add: get_rtlo_questions_def call_storage_def)

lemma get_documents_failure:
  assumes "getDocumentsByUser storage ''anonymous'' (store w) = (Inl m, st)"
  shows "fst (get_documents storage w)
           = \<lparr>status = 500, json = Message ''Failed to fetch documents''\<rparr>"
  using assms by (simp add: get_documents_def call_storage_def)

lemma get_ai_analyses_failure:
  assumes "getAIAnalysesByUser storage ''anonymous'' (store w) = (Inl m, st)"
  shows "fst (get_ai_analyses rt storage w)
           = \<lparr>status = 500, json = Message ''Failed to fetch analyses''\<rparr>"
  using assms by (simp add: get_ai_analyses_def call_storage_def andThen_def)

lemma list_routes_never_400:
  "status (fst (get_properties storage w)) \<noteq> 400"
  "status (fst (get_rtlo_questions storage w)) \<noteq> 400"
  "status (fst (get_documents storage w)) \<noteq> 400"
  "status (fst (get_ai_analyses rt storage w)) \<noteq> 400"
  by (auto simp: get_properties_def get_rtlo_questions_def get_documents_def get_ai_analyses_def
        call_storage_def split: sum.splits prod.splits)

lemma post_properties_invalid:
  assumes "parse (spread_with body ''userId'' (JStr ''anonymous'')) = Inl m"
  shows "post_properties parse storage now body w
           = (\<lparr>status = 400, json = Message (''Failed to create property: '' @ m)\<rparr>, w)"
  using assms by (simp add: post_properties_def)

text \<open>
  POST /api/properties has a single \<open>catch\<close>, with status 400, around both the schema
  parse and \<open>storage.createProperty\<close>: a storage failure there is answered 400.
\<close>

lemma post_properties_storage_failure:
  assumes "parse (spread_with body ''userId'' (JStr ''anonymous'')) = Inr pd"
      and "createProperty storage (property_row pd now) (store w) = (Inl m, st)"
  shows "fst (post_properties parse storage now body w)
           = \<lparr>status = 400, json = Message (''Failed to create property: '' @ m)\<rparr>"
  using assms by (simp add: post_properties_def call_storage_def)

text \<open>
  The list routes answer a storage failure with a fixed text: GET /api/properties, with a
  storage that throws \<open>connection refused\<close>, answers 500 \<open>Failed to fetch properties\<close>,
  a body that does not carry the storage's message.
\<close>

theorem list_route_hides_the_storage_error:
  "getPropertiesByUser (failing_storage ''connection refused'') ''anonymous'' (store w0)
     = (Inl ''connection refused'', ())
   \<and> fst (get_properties (failing_storage ''connection refused'') w0)
       = \<lparr>status = 500, json = Message ''Failed to fetch properties''\<rparr>
   \<and> \<not> (status (fst (get_properties (failing_storage ''connection refused'') w0)) = 500
          \<and> carries (json (fst (get_properties (failing_storage ''connection refused'') w0)))
               ''connection refused'')"
proof -
  have run: "fst (get_properties (failing_storage ''connection refused'') w0)
               = \<lparr>status = 500, json = Message ''Failed to fetch properties''\<rparr>"
    by (simp add: get_properties_def call_storage_def failing_storage_def w0_def)
  have "\<not> contains ''Failed to fetch properties'' ''connection refused''"
    by simp
  with run show ?thesis
    by (simp add: failing_storage_def w0_def)
qed

text \<open>
  C2, as the code has it. On POST /api/rtlo-questions, POST /api/documents and
  POST /api/ai-analysis, once the required body fields are present, a failure of the
  gateway call or of the storage write is answered 500 with the route's prefix followed by
  the component's error message, and these routes answer 400 only when a required field
  is missing or falsy. The four list routes answer a storage failure with 500 and a fixed
  text that does not include the storage's message, and never answer 400.
  POST /api/properties answers a body the schema rejects with 400 and the schema's
  message. (What POST /api/properties answers to a storage failure is not part of this
  statement.)
\<close>

theorem component_failures_by_route:
  "(destructure ''req.body'' body ''question'' = Inr question \<and> truthy question
      \<and> analyzeRTLOQuestion rt e fetch question w = (Inl m, w1)
    \<longrightarrow> post_rtlo_questions rt e fetch storage body w
          = (\<lparr>status = 500, json = Message (''Failed to process question: '' @ m)\<rparr>, w1))
   \<and> (destructure ''req.body'' body ''question'' = Inr question \<and> truthy question
      \<and> analyzeRTLOQuestion rt e fetch question w = (Inr answered, w1)
      \<and> createRTLOQuestion storage (question_row question answered) (store w1) = (Inl m, st)
    \<longrightarrow> fst (post_rtlo_questions rt e fetch storage body w)
          = \<lparr>status = 500, json = Message (''Failed to process question: '' @ m)\<rparr>)
   \<and> (status (fst (post_rtlo_questions rt e fetch storage body w)) = 400
    \<longrightarrow> (\<exists>q. destructure ''req.body'' body ''question'' = Inr q \<and> \<not> truthy q))
   \<and> (destructure ''req.body'' body ''documentType'' = Inr documentType
      \<and> destructure ''req.body'' body ''title'' = Inr title
      \<and> destructure ''req.body'' body ''propertyId'' = Inr propertyId
      \<and> destructure ''req.body'' body ''data'' = Inr data
      \<and> truthy documentType \<and> truthy title
      \<and> generateRTLODocument rt e fetch documentType (js_or data (JObj [])) w = (Inl m, w1)
    \<longrightarrow> post_documents rt e fetch storage body w
          = (\<lparr>status = 500, json = Message (''Failed to generate document: '' @ m)\<rparr>, w1))
   \<and> (destructure ''req.body'' body ''documentType'' = Inr documentType
      \<and> destructure ''req.body'' body ''title'' = Inr title
      \<and> destructure ''req.body'' body ''propertyId'' = Inr propertyId
      \<and> destructure ''req.body'' body ''data'' = Inr data
      \<and> truthy documentType \<and> truthy title
      \<and> generateRTLODocument rt e fetch documentType (js_or data (JObj [])) w = (Inr generated, w1)
      \<and> createDocument storage (document_row propertyId documentType title generated data)
            (store w1) = (Inl m, st)
    \<longrightarrow> fst (post_documents rt e fetch storage body w)
          = \<lparr>status = 500, json = Message (''Failed to generate document: '' @ m)\<rparr>)
   \<and> (status (fst (post_documents rt e fetch storage body w)) = 400
    \<longrightarrow> (\<exists>t h. destructure ''req.body'' body ''documentType'' = Inr t
                \<and> destructure ''req.body'' body ''title'' = Inr h
                \<and> \<not> (truthy t \<and> truthy h)))
   \<and> (destructure ''req.body'' body ''leaseText'' = Inr leaseText
      \<and> destructure ''req.body'' body ''documentId'' = Inr documentId
      \<and> truthy leaseText
      \<and> analyzeLeaseCompliance rt e fetch leaseText w = (Inl m, w1)
    \<longrightarrow> post_ai_analysis rt e fetch storage body w
          = (\<lparr>status = 500, json = Message (''Failed to perform AI analysis: '' @ m)\<rparr>, w1))
   \<and> (destructure ''req.body'' body ''leaseText'' = Inr leaseText
      \<and> destructure ''req.body'' body ''documentId'' = Inr documentId
      \<and> truthy leaseText
      \<and> analyzeLeaseCompliance rt e fetch leaseText w = (Inr analysed, w1)
      \<and> createAIAnalysis storage (analysis_row rt documentId leaseText analysed) (store w1)
           = (Inl m, st)
    \<longrightarrow> fst (post_ai_analysis rt e fetch storage body w)
          = \<lparr>status = 500, json = Message (''Failed to perform AI analysis: '' @ m)\<rparr>)
   \<and> (status (fst (post_ai_analysis rt e fetch storage body w)) = 400
    \<longrightarrow> (\<exists>l. destructure ''req.body'' body ''leaseText'' = Inr l \<and> \<not> truthy l))
   \<and> (getPropertiesByUser storage ''anonymous'' (store w) = (Inl m, st)
    \<longrightarrow> fst (get_properties storage w)
          = \<lparr>status = 500, json = Message ''Failed to fetch properties''\<rparr>)
   \<and> (getRTLOQuestionsByUser storage ''anonymous'' (store w) = (Inl m, st)
    \<longrightarrow> fst (get_rtlo_questions storage w)
          = \<lparr>status = 500, json = Message ''Failed to fetch questions''\<rparr>)
   \<and> (getDocumentsByUser storage ''anonymous'' (store w) = (Inl m, st)
    \<longrightarrow> fst (get_documents storage w)
          = \<lparr>status = 500, json = Message ''Failed to fetch documents''\<rparr>)
   \<and> (getAIAnalysesByUser storage ''anonymous'' (store w) = (Inl m, st)
    \<longrightarrow> fst (get_ai_analyses rt storage w)
          = \<lparr>status = 500, json = Message ''Failed to fetch analyses''\<rparr>)
   \<and> status (fst (get_properties storage w)) \<noteq> 400
   \<and> status (fst (get_rtlo_questions storage w)) \<noteq> 400
   \<and> status (fst (get_documents storage w)) \<noteq> 400
   \<and> status (fst (get_ai_analyses rt storage w)) \<noteq> 400
   \<and> (parse (spread_with body ''userId'' (JStr ''anonymous'')) = Inl m
    \<longrightarrow> post_properties parse storage now body w
          = (\<lparr>status = 400, json = Message (''Failed to create property: '' @ m)\<rparr>, w))"
proof (intro conjI impI; (elim conjE)?)
  show "status (fst (post_rtlo_questions rt e fetch storage body w)) = 400
        \<Longrightarrow> \<exists>q. destructure ''req.body'' body ''question'' = Inr q \<and> \<not> truthy q"
    by (rule post_rtlo_questions_400)
  show "status (fst (post_documents rt e fetch storage body w)) = 400
        \<Longrightarrow> \<exists>t h. destructure ''req.body'' body ''documentType'' = Inr t
                \<and> destructure ''req.body'' body ''title'' = Inr h
                \<and> \<not> (truthy t \<and> truthy h)"
    using post_documents_400 [of rt e fetch storage body w] by blast
  show "status (fst (post_ai_analysis rt e fetch storage body w)) = 400
        \<Longrightarrow> \<exists>l. destructure ''req.body'' body ''leaseText'' = Inr l \<and> \<not> truthy l"
    by (rule post_ai_analysis_400)
qed (simp_all add: post_rtlo_questions_gateway_failure post_rtlo_questions_storage_failure
       post_documents_gateway_failure post_documents_storage_failure
       post_ai_analysis_gateway_failure post_ai_analysis_storage_failure
       get_properties_failure get_rtlo_questions_failure get_documents_failure
       get_ai_analyses_failure list_routes_never_400 post_properties_invalid)

theorem component_failures_by_route_witness:
  "fst (post_rtlo_questions lease_runtime test_env (fetch_rejecting ''socket hang up'')
          accepting_storage question_body w0)
     = \<lparr>status = 500,
        json = Message ''Failed to process question: Failed to analyze RTLO question: socket hang up''\<rparr>
   \<and> fst (post_ai_analysis lease_runtime test_env (fetch_replying lease_reply_text)
            (failing_storage ''connection refused'') (JObj [(''leaseText'', sample_lease)]) w0)
     = \<lparr>status = 500, json = Message ''Failed to perform AI analysis: connection refused''\<rparr>
   \<and> fst (get_documents (failing_storage ''connection refused'') w0)
     = \<lparr>status = 500, json = Message ''Failed to fetch documents''\<rparr>"
proof (intro conjI)
  let ?q = "JStr ''When is the deposit due back?''"
  have q: "destructure ''req.body'' question_body ''question'' = Inr ?q" "truthy ?q"
    by (simp_all add: destructure_def question_body_def)
  obtain w1 where gw: "analyzeRTLOQuestion lease_runtime test_env (fetch_rejecting ''socket hang up'')
                     ?q w0 = (Inl ''Failed to analyze RTLO question: socket hang up'', w1)"
    by (simp add: analyzeRTLOQuestion_def chatCompletion_def call_fetch_def fetch_rejecting_def
          test_env_def env_or_def rethrow_def andThen_def)
  from q gw
  have "post_rtlo_questions lease_runtime test_env (fetch_rejecting ''socket hang up'')
          accepting_storage question_body w0
        = (\<lparr>status = 500,
            json = Message (''Failed to process question: ''
                            @ ''Failed to analyze RTLO question: socket hang up'')\<rparr>, w1)"
    by (intro component_failures_by_route [THEN conjunct1, THEN mp] conjI)
  then show "fst (post_rtlo_questions lease_runtime test_env (fetch_rejecting ''socket hang up'')
          accepting_storage question_body w0)
     = \<lparr>status = 500,
        json = Message ''Failed to process question: Failed to analyze RTLO question: socket hang up''\<rparr>"
    by simp
next
  let ?body = "JObj [(''leaseText'', sample_lease)]"
  let ?r = "\<lparr>complianceScore = NaN, issues = JArr [], recommendations = JArr []\<rparr>"
  have b: "destructure ''req.body'' ?body ''leaseText'' = Inr sample_lease"
       "destructure ''req.body'' ?body ''documentId'' = Inr JUndefined"
       "truthy sample_lease"
    by (simp_all add: destructure_def sample_lease_def)
  obtain w1 :: "unit world" where gw:
    "analyzeLeaseCompliance lease_runtime test_env (fetch_replying lease_reply_text)
       sample_lease w0 = (Inr ?r, w1)"
    using lease_run
    by (cases "analyzeLeaseCompliance lease_runtime test_env (fetch_replying lease_reply_text)
                 sample_lease (w0 :: unit world)") simp
  have st: "createAIAnalysis (failing_storage ''connection refused'')
              (analysis_row lease_runtime JUndefined sample_lease ?r) (store w1)
            = (Inl ''connection refused'', ())"
    by (simp add: failing_storage_def)
  from b gw st
  have "fst (post_ai_analysis lease_runtime test_env (fetch_replying lease_reply_text)
            (failing_storage ''connection refused'') ?body w0)
        = \<lparr>status = 500,
           json = Message (''Failed to perform AI analysis: '' @ ''connection refused'')\<rparr>"
    by (intro component_failures_by_route
                [THEN conjunct2, THEN conjunct2, THEN conjunct2, THEN conjunct2, THEN conjunct2,
                 THEN conjunct2, THEN conjunct2, THEN conjunct1, THEN mp] conjI)
  then show "fst (post_ai_analysis lease_runtime test_env (fetch_replying lease_reply_text)
            (failing_storage ''connection refused'') ?body w0)
     = \<lparr>status = 500, json = Message ''Failed to perform AI analysis: connection refused''\<rparr>"
    by simp
next
  have "getDocumentsByUser (failing_storage ''connection refused'') ''anonymous'' (store w0)
          = (Inl ''connection refused'', ())"
    by (simp add: failing_storage_def)
  then show "fst (get_documents (failing_storage ''connection refused'') w0)
     = \<lparr>status = 500, json = Message ''Failed to fetch documents''\<rparr>"
    by (intro component_failures_by_route
                [THEN conjunct2, THEN conjunct2, THEN conjunct2, THEN conjunct2, THEN conjunct2,
                 THEN conjunct2, THEN conjunct2, THEN conjunct2, THEN conjunct2, THEN conjunct2,
                 THEN conjunct2, THEN conjunct1, THEN mp])
qed

end
